theory Spec2Isabelle
  imports Main
begin

section \<open>JavaScript strings\<close>

text \<open>
  A string is the list of its code units, and a character is a code unit below 256. String
  literals are ASCII here, so the accented letters of the source's Portuguese messages are
  written without their accent. The event names and severities, which the properties below
  are about, are ASCII in the source as well.
\<close>

text \<open>\<^verbatim>\<open>a < b\<close> on two strings: lexicographic on the character codes.\<close>

fun str_less :: "string \<Rightarrow> string \<Rightarrow> bool" where
  "str_less [] [] = False"
| "str_less [] (y # ys) = True"
| "str_less (x # xs) [] = False"
| "str_less (x # xs) (y # ys) =
     ((of_char x :: nat) < of_char y \<or> (x = y \<and> str_less xs ys))"

text \<open>
  A property that may be absent is an option, \<open>None\<close> being \<^verbatim>\<open>undefined\<close>. Comparing
  \<^verbatim>\<open>undefined\<close> with a string by \<^verbatim>\<open><\<close> or \<^verbatim>\<open>></\<close> is false.
\<close>

definition js_lt :: "string option \<Rightarrow> string \<Rightarrow> bool" where
  "js_lt a b = (case a of None \<Rightarrow> False | Some x \<Rightarrow> str_less x b)"

definition js_gt :: "string option \<Rightarrow> string \<Rightarrow> bool" where
  "js_gt a b = (case a of None \<Rightarrow> False | Some x \<Rightarrow> str_less b x)"

text \<open>Truthiness of an optional string and of an optional boolean.\<close>

definition truthy :: "string option \<Rightarrow> bool" where
  "truthy a = (case a of None \<Rightarrow> False | Some x \<Rightarrow> x \<noteq> [])"

definition truthy_bool :: "bool option \<Rightarrow> bool" where
  "truthy_bool a = (case a of None \<Rightarrow> False | Some b \<Rightarrow> b)"

text \<open>A value inside a template literal.\<close>

definition show_str :: "string option \<Rightarrow> string" where
  "show_str a = (case a of None \<Rightarrow> ''undefined'' | Some x \<Rightarrow> x)"

text \<open>\<^verbatim>\<open>s.includes(sub)\<close>: \<open>sub\<close> occurs in \<open>s\<close> as a contiguous run.\<close>

fun startsWith :: "string \<Rightarrow> string \<Rightarrow> bool" where
  "startsWith s [] = True"
| "startsWith [] (p # ps) = False"
| "startsWith (c # cs) (p # ps) = (c = p \<and> startsWith cs ps)"

fun includes_str :: "string \<Rightarrow> string \<Rightarrow> bool" where
  "includes_str [] sub = (sub = [])"
| "includes_str (c # cs) sub = (startsWith (c # cs) sub \<or> includes_str cs sub)"

text \<open>
  \<^verbatim>\<open>trim\<close>, \<^verbatim>\<open>split('\n')\<close> and \<^verbatim>\<open>join('\n')\<close>. The white space that \<^verbatim>\<open>trim\<close> removes is,
  below 256: tab, line feed, vertical tab, form feed, carriage return, space and the
  no-break space.
\<close>

definition isWhitespace :: "char \<Rightarrow> bool" where
  "isWhitespace c = ((of_char c :: nat) \<in> {9, 10, 11, 12, 13, 32, 160})"

definition trim :: "string \<Rightarrow> string" where
  "trim s = rev (dropWhile isWhitespace (rev (dropWhile isWhitespace s)))"

fun split_nl :: "string \<Rightarrow> string list" where
  "split_nl [] = [[]]"
| "split_nl (c # cs) =
     (let r = split_nl cs
      in if c = CHR ''\<newline>'' then [] # r else (c # hd r) # tl r)"

fun join_nl :: "string list \<Rightarrow> string" where
  "join_nl [] = []"
| "join_nl [l] = l"
| "join_nl (l # m # ls) = l @ CHR ''\<newline>'' # join_nl (m # ls)"

section \<open>The environment: file system and logger\<close>

text \<open>
  \<^verbatim>\<open>fs\<close> is a map from paths to file contents. A path may carry a fault: \<open>Denied\<close> makes
  every write to it fail when the file is opened, before anything changes; \<open>FailsAfter k\<close>
  makes a write of more than \<open>k\<close> characters fail once \<open>k\<close> of them are written.
  \<^verbatim>\<open>writeFileSync\<close> opens the file itself with flag \<^verbatim>\<open>w\<close>: the old content is gone once
  the file is open.
\<close>

datatype error = SystemError string | TypeError string | Error string

datatype fault = Denied | FailsAfter nat

datatype log_call = Info string | Warn string | Err string

record state =
  files :: "string \<rightharpoonup> string"
  faults :: "string \<rightharpoonup> fault"
  logger :: "log_call list"

definition log :: "log_call \<Rightarrow> state \<Rightarrow> state" where
  "log c s = s\<lparr>logger := logger s @ [c]\<rparr>"

definition readFileSync :: "state \<Rightarrow> string \<Rightarrow> error + string" where
  "readFileSync s p =
     (case files s p of None \<Rightarrow> Inl (SystemError ''ENOENT'') | Some d \<Rightarrow> Inr d)"

definition write_at :: "state \<Rightarrow> string \<Rightarrow> string \<Rightarrow> string \<Rightarrow> (error + unit) \<times> state" where
  "write_at s p old d =
     (case faults s p of
        None \<Rightarrow> (Inr (), s\<lparr>files := (files s)(p \<mapsto> old @ d)\<rparr>)
      | Some Denied \<Rightarrow> (Inl (SystemError ''EACCES''), s)
      | Some (FailsAfter k) \<Rightarrow>
          (if length d \<le> k then (Inr (), s\<lparr>files := (files s)(p \<mapsto> old @ d)\<rparr>)
           else (Inl (SystemError ''ENOSPC''), s\<lparr>files := (files s)(p \<mapsto> old @ take k d)\<rparr>)))"

definition appendFileSync :: "state \<Rightarrow> string \<Rightarrow> string \<Rightarrow> (error + unit) \<times> state" where
  "appendFileSync s p d =
     write_at s p (case files s p of None \<Rightarrow> [] | Some old \<Rightarrow> old) d"

definition writeFileSync :: "state \<Rightarrow> string \<Rightarrow> string \<Rightarrow> (error + unit) \<times> state" where
  "writeFileSync s p d = write_at s p [] d"

section \<open>SecurityAudit: data\<close>

text \<open>
  A line of the audit log, once parsed, is an object whose properties may be absent: the
  audit entries written by \<^verbatim>\<open>logOperation\<close> have them all, the security entries written by
  \<^verbatim>\<open>logSecurityEvent\<close> have no \<^verbatim>\<open>operation\<close> and no \<^verbatim>\<open>success\<close>.
\<close>

record entry =
  timestamp :: "string option"
  user :: "string option"
  operation :: "string option"
  resource :: "string option"
  query :: "string option"
  success :: "bool option"
  message :: "string option"
  ip :: "string option"
  userAgent :: "string option"

record activity =
  type :: string
  message_a :: string
  severity :: string

record securityEntry =
  se_timestamp :: string
  se_event :: string
  se_user :: "string option"
  se_message :: string
  se_severity :: string
  se_auditEntry :: entry

text \<open>
  The configuration. \<^verbatim>\<open>lockoutDuration\<close> (milliseconds) is its only duration beside the
  retention; no function of \<^verbatim>\<open>SecurityAudit\<close> reads it.
\<close>

record securityConfig =
  sensitiveTables :: "string list"
  maxFailedAttempts :: nat
  lockoutDuration :: int
  auditRetentionDays :: int

text \<open>
  What the code takes from the JavaScript library: \<^verbatim>\<open>JSON.parse\<close> of a line (\<open>None\<close>
  when reading the line raises: a syntax error, or \<^verbatim>\<open>null\<close>, whose first property read
  raises), \<^verbatim>\<open>JSON.stringify\<close>, \<^verbatim>\<open>String.prototype.toUpperCase\<close> (which follows Unicode and
  may change the length), and \<^verbatim>\<open>Date\<close>: the ISO string of an instant (milliseconds),
  the local hour and the instant of a time stamp (\<open>None\<close> for \<^verbatim>\<open>NaN\<close>, an invalid date), and
  \<^verbatim>\<open>setDate(getDate() - n)\<close>; the regular-expression replacement of \<^verbatim>\<open>sanitizeQuery\<close>; the
  \<^verbatim>\<open>sort\<close> of entries by date, latest first (its comparator is \<^verbatim>\<open>NaN\<close> on an invalid date);
  and two variables of the process environment. \<^verbatim>\<open>Date.now()\<close> is the parameter \<open>now\<close> of
  each function, one reading for the whole call.
\<close>

record env =
  JSON_parse :: "string \<Rightarrow> entry option"
  JSON_stringify :: "entry \<Rightarrow> string"
  JSON_stringify_event :: "securityEntry \<Rightarrow> string"
  toUpperCase :: "string \<Rightarrow> string"
  toISOString :: "int \<Rightarrow> string"
  getHours :: "string \<Rightarrow> int option"
  getTime :: "string \<Rightarrow> int option"
  daysBefore :: "int \<Rightarrow> int \<Rightarrow> int"
  replacePassword :: "string \<Rightarrow> string"
  sortByDateDesc :: "entry list \<Rightarrow> entry list"
  CLIENT_IP :: "string option"
  USER_AGENT :: "string option"

definition auditLogPath :: string where
  "auditLogPath = ''./logs/audit.log''"

definition lines_of :: "string \<Rightarrow> string list" where
  "lines_of logData = split_nl (trim logData)"

text \<open>\<^verbatim>\<open>new Date(ts)\<close> of an absent time stamp is an invalid date.\<close>

definition hourOf :: "env \<Rightarrow> string option \<Rightarrow> int option" where
  "hourOf js ts = (case ts of None \<Rightarrow> None | Some x \<Rightarrow> getHours js x)"

definition dateOf :: "env \<Rightarrow> string option \<Rightarrow> int option" where
  "dateOf js ts = (case ts of None \<Rightarrow> None | Some x \<Rightarrow> getTime js x)"

section \<open>SecurityAudit: the inline checker\<close>

text \<open>
  \<^verbatim>\<open>getRecentFailedAttempts\<close>. The loop body is inside \<^verbatim>\<open>try\<close>: a line that does not parse is
  skipped, and so is a line of the same user without \<^verbatim>\<open>operation\<close>, where \<^verbatim>\<open>includes\<close> raises.
\<close>

definition failedAttempt :: "env \<Rightarrow> string option \<Rightarrow> string \<Rightarrow> string \<Rightarrow> bool" where
  "failedAttempt js usr cutoffTime line =
     (case JSON_parse js line of
        None \<Rightarrow> False
      | Some entry \<Rightarrow>
          user entry = usr \<and>
          (case operation entry of
             None \<Rightarrow> False
           | Some op \<Rightarrow>
               includes_str op ''LOGIN'' \<and> \<not> truthy_bool (success entry) \<and>
               js_gt (timestamp entry) cutoffTime))"

fun countFailedAttempts :: "env \<Rightarrow> string option \<Rightarrow> string \<Rightarrow> string list \<Rightarrow> nat \<Rightarrow> nat" where
  "countFailedAttempts js usr cutoffTime [] failedAttempts = failedAttempts"
| "countFailedAttempts js usr cutoffTime (line # lines) failedAttempts =
     countFailedAttempts js usr cutoffTime lines
       (if failedAttempt js usr cutoffTime line then failedAttempts + 1 else failedAttempts)"

definition getRecentFailedAttempts ::
  "env \<Rightarrow> int \<Rightarrow> string option \<Rightarrow> int \<Rightarrow> state \<Rightarrow> nat \<times> state" where
  "getRecentFailedAttempts js now usr minutes s =
     (case readFileSync s auditLogPath of
        Inl e \<Rightarrow> (0, log (Err ''Erro ao verificar tentativas falhadas:'') s)
      | Inr logData \<Rightarrow>
          (let cutoffTime = toISOString js (now - minutes * 60 * 1000)
           in (countFailedAttempts js usr cutoffTime (lines_of logData) 0, s)))"

text \<open>\<^verbatim>\<open>getRecentOperations\<close>.\<close>

definition recentOperation :: "env \<Rightarrow> string option \<Rightarrow> string \<Rightarrow> string \<Rightarrow> entry option" where
  "recentOperation js usr cutoffTime line =
     (case JSON_parse js line of
        None \<Rightarrow> None
      | Some entry \<Rightarrow>
          if user entry = usr \<and> js_gt (timestamp entry) cutoffTime then Some entry else None)"

fun collectOperations :: "env \<Rightarrow> string option \<Rightarrow> string \<Rightarrow> string list \<Rightarrow> entry list \<Rightarrow> entry list" where
  "collectOperations js usr cutoffTime [] operations = operations"
| "collectOperations js usr cutoffTime (line # lines) operations =
     collectOperations js usr cutoffTime lines
       (case recentOperation js usr cutoffTime line of
          None \<Rightarrow> operations
        | Some entry \<Rightarrow> operations @ [entry])"

definition getRecentOperations ::
  "env \<Rightarrow> int \<Rightarrow> string option \<Rightarrow> int \<Rightarrow> state \<Rightarrow> entry list \<times> state" where
  "getRecentOperations js now usr minutes s =
     (case readFileSync s auditLogPath of
        Inl e \<Rightarrow> ([], log (Err ''Erro ao obter operacoes recentes:'') s)
      | Inr logData \<Rightarrow>
          (let cutoffTime = toISOString js (now - minutes * 60 * 1000)
           in (collectOperations js usr cutoffTime (lines_of logData) [], s)))"

text \<open>
  \<^verbatim>\<open>logSecurityEvent\<close>, as \<^verbatim>\<open>checkSuspiciousActivity\<close> calls it: the details are the message
  and the severity of the activity and the audit entry.
\<close>

definition logSecurityEvent ::
  "env \<Rightarrow> int \<Rightarrow> string \<Rightarrow> string option \<Rightarrow> activity \<Rightarrow> entry \<Rightarrow> state \<Rightarrow> state" where
  "logSecurityEvent js now event usr details auditEntry s =
     (let securityEntry =
            \<lparr>se_timestamp = toISOString js now, se_event = event, se_user = usr,
             se_message = message_a details, se_severity = severity details,
             se_auditEntry = auditEntry\<rparr>;
          s1 = log (Warn (''Evento de seguranca: '' @ event)) s
      in case appendFileSync s1 auditLogPath
                (JSON_stringify_event js securityEntry @ [CHR ''\<newline>'']) of
           (Inl e, s2) \<Rightarrow> log (Err ''Erro ao registrar evento de seguranca:'') s2
         | (Inr u, s2) \<Rightarrow> s2)"

text \<open>The three comparisons of \<^verbatim>\<open>checkSuspiciousActivity\<close> on values that may be absent.\<close>

definition sensitiveMatch :: "env \<Rightarrow> string option \<Rightarrow> string \<Rightarrow> bool" where
  "sensitiveMatch js res table =
     (case res of
        None \<Rightarrow> False
      | Some r \<Rightarrow> r \<noteq> [] \<and> includes_str (toUpperCase js r) table)"

definition num_lt :: "int option \<Rightarrow> int \<Rightarrow> bool" where
  "num_lt a b = (case a of None \<Rightarrow> False | Some x \<Rightarrow> x < b)"

definition num_gt :: "int option \<Rightarrow> int \<Rightarrow> bool" where
  "num_gt a b = (case a of None \<Rightarrow> False | Some x \<Rightarrow> x > b)"

text \<open>
  The four rules of \<^verbatim>\<open>checkSuspiciousActivity\<close>, one definition for each \<^verbatim>\<open>if\<close> of the
  source: what the rule pushes on \<^verbatim>\<open>suspiciousActivities\<close>.
\<close>

definition multipleFailedLogins :: "securityConfig \<Rightarrow> entry \<Rightarrow> bool \<Rightarrow> nat \<Rightarrow> activity list" where
  "multipleFailedLogins cfg auditEntry failedLogin failedAttempts =
     (if failedLogin \<and> failedAttempts \<ge> maxFailedAttempts cfg
      then [\<lparr>type = ''MULTIPLE_FAILED_LOGINS'',
             message_a = ''Multiplas tentativas de login falhadas para usuario ''
                         @ show_str (user auditEntry),
             severity = ''HIGH''\<rparr>]
      else [])"

definition sensitiveTableAccess :: "env \<Rightarrow> securityConfig \<Rightarrow> entry \<Rightarrow> activity list" where
  "sensitiveTableAccess js cfg auditEntry =
     (if list_ex (sensitiveMatch js (resource auditEntry)) (sensitiveTables cfg)
      then [\<lparr>type = ''SENSITIVE_TABLE_ACCESS'',
             message_a = ''Acesso a tabela sensivel: '' @ show_str (resource auditEntry),
             severity = ''MEDIUM''\<rparr>]
      else [])"

definition unusualTimeAccess :: "env \<Rightarrow> entry \<Rightarrow> activity list" where
  "unusualTimeAccess js auditEntry =
     (let hour = hourOf js (timestamp auditEntry)
      in if num_lt hour 6 \<or> num_gt hour 22
         then [\<lparr>type = ''UNUSUAL_TIME_ACCESS'',
                message_a = ''Acesso em horario nao usual: '' @ show_str (timestamp auditEntry),
                severity = ''LOW''\<rparr>]
         else [])"

definition highFrequencyOperations :: "entry \<Rightarrow> entry list \<Rightarrow> activity list" where
  "highFrequencyOperations auditEntry recentOperations =
     (if length recentOperations > 50
      then [\<lparr>type = ''HIGH_FREQUENCY_OPERATIONS'',
             message_a = ''Alto volume de operacoes para usuario '' @ show_str (user auditEntry),
             severity = ''MEDIUM''\<rparr>]
      else [])"

text \<open>
  \<^verbatim>\<open>checkSuspiciousActivity\<close>. The result is the array \<^verbatim>\<open>suspiciousActivities\<close> that the last
  loop hands, one by one, to \<^verbatim>\<open>logSecurityEvent\<close>: the events emitted. A failed entry
  without \<^verbatim>\<open>operation\<close> raises at the first test, before any rule.
\<close>

definition checkSuspiciousActivity ::
  "env \<Rightarrow> securityConfig \<Rightarrow> int \<Rightarrow> entry \<Rightarrow> state \<Rightarrow> (error + activity list) \<times> state" where
  "checkSuspiciousActivity js cfg now auditEntry s =
     (case (if \<not> truthy_bool (success auditEntry)
            then (case operation auditEntry of
                    None \<Rightarrow> Inl (TypeError ''Cannot read properties of undefined (reading includes)'')
                  | Some op \<Rightarrow> Inr (includes_str op ''LOGIN''))
            else Inr False) of
        Inl e \<Rightarrow> (Inl e, s)
      | Inr failedLogin \<Rightarrow>
          (let (failedAttempts, s1) =
                 (if failedLogin then getRecentFailedAttempts js now (user auditEntry) 5 s
                  else (0, s));
               a1 = multipleFailedLogins cfg auditEntry failedLogin failedAttempts;
               a2 = sensitiveTableAccess js cfg auditEntry;
               a3 = unusualTimeAccess js auditEntry;
               (recentOperations, s2) = getRecentOperations js now (user auditEntry) 10 s1;
               a4 = highFrequencyOperations auditEntry recentOperations;
               suspiciousActivities = a1 @ a2 @ a3 @ a4
           in (Inr suspiciousActivities,
               fold (\<lambda>activity. logSecurityEvent js now (type activity) (user auditEntry)
                                  activity auditEntry)
                    suspiciousActivities s2)))"

text \<open>
  What the four rules give on a readable log for an entry whose operation is \<open>op\<close>: the
  activities in the order of the source.
\<close>

definition ruleActivities ::
  "env \<Rightarrow> securityConfig \<Rightarrow> int \<Rightarrow> entry \<Rightarrow> string \<Rightarrow> string \<Rightarrow> activity list" where
  "ruleActivities js cfg now e op logData =
     multipleFailedLogins cfg e (\<not> truthy_bool (success e) \<and> includes_str op ''LOGIN'')
       (if \<not> truthy_bool (success e) \<and> includes_str op ''LOGIN''
        then length (filter (failedAttempt js (user e) (toISOString js (now - 5 * 60 * 1000)))
                       (lines_of logData))
        else 0)
     @ sensitiveTableAccess js cfg e @ unusualTimeAccess js e
     @ highFrequencyOperations e
         (collectOperations js (user e) (toISOString js (now - 10 * 60 * 1000))
            (lines_of logData) [])"







text \<open>The warnings among the logger calls: \<^verbatim>\<open>logSecurityEvent\<close> makes one for each event.\<close>

fun isWarn :: "log_call \<Rightarrow> bool" where
  "isWarn (Warn m) = True"
| "isWarn (Info m) = False"
| "isWarn (Err m) = False"

section \<open>SecurityAudit: reports, scan and retention\<close>

text \<open>Decimal digits of a number inside a template literal.\<close>

fun show_nat :: "nat \<Rightarrow> string" where
  "show_nat n =
     (if n < 10 then [char_of (48 + n)] else show_nat (n div 10) @ [char_of (48 + n mod 10)])"

text \<open>
  An object used as a dictionary is an association list in insertion order, which is the
  order \<^verbatim>\<open>Object.entries\<close> follows for keys that are not array indices.
\<close>

fun assign :: "string \<Rightarrow> 'v \<Rightarrow> (string \<times> 'v) list \<Rightarrow> (string \<times> 'v) list" where
  "assign k v [] = [(k, v)]"
| "assign k v ((k', v') # m) = (if k' = k then (k, v) # m else (k', v') # assign k v m)"

record options =
  startDate :: "string option"
  endDate :: "string option"
  user_o :: "string option"
  operation_o :: "string option"
  success_o :: "bool option"

text \<open>
  \<^verbatim>\<open>generateAuditReport\<close>: the four \<^verbatim>\<open>continue\<close> tests of the loop body. A line that does not
  parse raises inside the \<^verbatim>\<open>try\<close> of the body and is passed over; nothing records it.
\<close>

definition matchesFilters :: "string \<Rightarrow> string \<Rightarrow> options \<Rightarrow> entry \<Rightarrow> bool" where
  "matchesFilters startD endD opts entry =
     (\<not> (js_lt (timestamp entry) startD \<or> js_gt (timestamp entry) endD) \<and>
      \<not> (truthy (user_o opts) \<and> user entry \<noteq> user_o opts) \<and>
      \<not> (truthy (operation_o opts) \<and> operation entry \<noteq> operation_o opts) \<and>
      \<not> (success_o opts \<noteq> None \<and> success entry \<noteq> success_o opts))"

fun filterEntries ::
  "env \<Rightarrow> string \<Rightarrow> string \<Rightarrow> options \<Rightarrow> string list \<Rightarrow> entry list \<Rightarrow> entry list" where
  "filterEntries js startD endD opts [] filteredEntries = filteredEntries"
| "filterEntries js startD endD opts (line # lines) filteredEntries =
     filterEntries js startD endD opts lines
       (case JSON_parse js line of
          None \<Rightarrow> filteredEntries
        | Some entry \<Rightarrow>
            if matchesFilters startD endD opts entry then filteredEntries @ [entry]
            else filteredEntries)"

text \<open>
  The report is the list of the pieces that \<^verbatim>\<open>formatAuditReport\<close> appends to its string,
  one constructor for each template, named by the words of the template and carrying the
  values it interpolates: \<open>Total_de_operacoes n\<close> is the line \<^verbatim>\<open>**Total de operacoes:** n\<close>,
  \<open>Nenhuma_operacao_encontrada\<close> is the sentence
  \<^verbatim>\<open>Nenhuma operacao encontrada no periodo especificado.\<close>, and so on; the heading and the
  separator of a table are one piece. A rate is \<^verbatim>\<open>((a / b) * 100).toFixed(2)\<close>: it is kept
  as the two counts, and as \<open>NaN\<close> or \<open>Infinity\<close> where the division is by zero.
\<close>

datatype rate = NaN | Infinity | Percent nat nat

definition js_percent :: "nat \<Rightarrow> nat \<Rightarrow> rate" where
  "js_percent a b = (if b = 0 then (if a = 0 then NaN else Infinity) else Percent a b)"

datatype segment =
    Relatorio_de_Auditoria
  | Periodo "string option" "string option"
  | Total_de_operacoes nat
  | Nenhuma_operacao_encontrada
  | Resumo
  | Operacoes_bem_sucedidas nat
  | Operacoes_falhadas nat
  | Taxa_de_sucesso rate
  | Top_Usuarios
  | Usuario_row string nat nat nat rate
  | Top_Operacoes
  | Operacao_row string nat
  | Operacoes_Recentes
  | Recente_row string string string string bool

record stats =
  total :: nat
  success_s :: nat
  failed :: nat

definition countUser :: "entry \<Rightarrow> (string \<times> stats) list \<Rightarrow> (string \<times> stats) list" where
  "countUser entry userStats =
     (let k = show_str (user entry);
          st = (case map_of userStats k of
                  None \<Rightarrow> \<lparr>total = 0, success_s = 0, failed = 0\<rparr> | Some x \<Rightarrow> x);
          st1 = st\<lparr>total := total st + 1\<rparr>
      in assign k (if truthy_bool (success entry) then st1\<lparr>success_s := success_s st1 + 1\<rparr>
                   else st1\<lparr>failed := failed st1 + 1\<rparr>) userStats)"

definition countOperation :: "entry \<Rightarrow> (string \<times> nat) list \<Rightarrow> (string \<times> nat) list" where
  "countOperation entry operationStats =
     (let k = show_str (operation entry)
      in assign k ((case map_of operationStats k of None \<Rightarrow> 0 | Some n \<Rightarrow> n) + 1)
           operationStats)"

definition formatAuditReport :: "env \<Rightarrow> entry list \<Rightarrow> options \<Rightarrow> segment list" where
  "formatAuditReport js entries opts =
     (let report = [Relatorio_de_Auditoria, Periodo (startDate opts) (endDate opts),
                    Total_de_operacoes (length entries)]
      in if length entries = 0 then report @ [Nenhuma_operacao_encontrada]
         else
           (let userStats = fold countUser entries [];
                operationStats = fold countOperation entries [];
                successCount = length (filter (\<lambda>entry. truthy_bool (success entry)) entries)
            in report
               @ [Resumo, Operacoes_bem_sucedidas successCount,
                  Operacoes_falhadas (length entries - successCount),
                  Taxa_de_sucesso (js_percent successCount (length entries))]
               @ [Top_Usuarios]
               @ map (\<lambda>(usr, st). Usuario_row usr (total st) (success_s st) (failed st)
                                     (js_percent (success_s st) (total st)))
                   (take 10 (sort_key (\<lambda>(usr, st). - int (total st)) userStats))
               @ [Top_Operacoes]
               @ map (\<lambda>(op, n). Operacao_row op n)
                   (take 10 (sort_key (\<lambda>(op, n). - int n) operationStats))
               @ [Operacoes_Recentes]
               @ map (\<lambda>entry. Recente_row (show_str (timestamp entry)) (show_str (user entry))
                                  (show_str (operation entry))
                                  (if truthy (resource entry) then show_str (resource entry)
                                   else ''N/A'')
                                  (truthy_bool (success entry)))
                   (take 20 (sortByDateDesc js entries))))"

fun error_message :: "error \<Rightarrow> string" where
  "error_message (SystemError m) = m"
| "error_message (TypeError m) = m"
| "error_message (Error m) = m"

definition generateAuditReport ::
  "env \<Rightarrow> int \<Rightarrow> options \<Rightarrow> state \<Rightarrow> (error + segment list) \<times> state" where
  "generateAuditReport js now opts s =
     (let startD = (case startDate opts of
                      None \<Rightarrow> toISOString js (now - 24 * 60 * 60 * 1000) | Some d \<Rightarrow> d);
          endD = (case endDate opts of None \<Rightarrow> toISOString js now | Some d \<Rightarrow> d)
      in case readFileSync s auditLogPath of
           Inl e \<Rightarrow>
             (Inl (Error (''Erro ao gerar relatorio: '' @ error_message e)),
              log (Err ''Erro ao gerar relatorio de auditoria:'') s)
         | Inr logData \<Rightarrow>
             (Inr (formatAuditReport js
                     (filterEntries js startD endD opts (lines_of logData) []) opts),
              s))"

text \<open>
  \<^verbatim>\<open>detectSuspiciousActivity\<close>. The filter of the failed logins reads \<^verbatim>\<open>operation\<close> of every
  entry whose success is not true: on an entry without operation it raises, the outer
  \<^verbatim>\<open>catch\<close> logs and the scan returns the empty list.
\<close>

fun collectRecent :: "env \<Rightarrow> string \<Rightarrow> string list \<Rightarrow> entry list \<Rightarrow> entry list" where
  "collectRecent js cutoffTime [] recentEntries = recentEntries"
| "collectRecent js cutoffTime (line # lines) recentEntries =
     collectRecent js cutoffTime lines
       (case JSON_parse js line of
          None \<Rightarrow> recentEntries
        | Some entry \<Rightarrow>
            if js_gt (timestamp entry) cutoffTime then recentEntries @ [entry]
            else recentEntries)"

definition groupBy :: "(entry \<Rightarrow> string) \<Rightarrow> entry \<Rightarrow> (string \<times> entry list) list
    \<Rightarrow> (string \<times> entry list) list" where
  "groupBy key entry activity =
     assign (key entry)
       ((case map_of activity (key entry) of None \<Rightarrow> [] | Some es \<Rightarrow> es) @ [entry]) activity"

fun failedLogins :: "entry list \<Rightarrow> error + entry list" where
  "failedLogins [] = Inr []"
| "failedLogins (a # as) =
     (if \<not> truthy_bool (success a)
      then (case operation a of
              None \<Rightarrow> Inl (TypeError ''Cannot read properties of undefined (reading includes)'')
            | Some op \<Rightarrow>
                (case failedLogins as of
                   Inl e \<Rightarrow> Inl e
                 | Inr r \<Rightarrow> Inr (if includes_str op ''LOGIN'' then a # r else r)))
      else failedLogins as)"

fun checkUsers :: "(string \<times> entry list) list \<Rightarrow> activity list \<Rightarrow> error + activity list" where
  "checkUsers [] suspiciousActivities = Inr suspiciousActivities"
| "checkUsers ((usr, activities) # rest) suspiciousActivities =
     (let acts1 = (if length activities > 100
                   then suspiciousActivities
                        @ [\<lparr>type = ''HIGH_FREQUENCY_USER'',
                            message_a = ''Usuario '' @ usr @ '' executou ''
                                        @ show_nat (length activities) @ '' operacoes em 24h'',
                            severity = ''MEDIUM''\<rparr>]
                   else suspiciousActivities)
      in case failedLogins activities of
           Inl e \<Rightarrow> Inl e
         | Inr fl \<Rightarrow>
             checkUsers rest
               (if length fl > 10
                then acts1
                     @ [\<lparr>type = ''MULTIPLE_FAILED_LOGINS'',
                         message_a = ''Usuario '' @ usr @ '' teve '' @ show_nat (length fl)
                                     @ '' tentativas de login falhadas'',
                         severity = ''HIGH''\<rparr>]
                else acts1))"

fun checkIPs :: "(string \<times> entry list) list \<Rightarrow> activity list \<Rightarrow> activity list" where
  "checkIPs [] suspiciousActivities = suspiciousActivities"
| "checkIPs ((addr, activities) # rest) suspiciousActivities =
     checkIPs rest
       (if length activities > 200
        then suspiciousActivities
             @ [\<lparr>type = ''HIGH_FREQUENCY_IP'',
                 message_a = ''IP '' @ addr @ '' executou '' @ show_nat (length activities)
                             @ '' operacoes em 24h'',
                 severity = ''MEDIUM''\<rparr>]
        else suspiciousActivities)"

definition detectSuspiciousActivity :: "env \<Rightarrow> int \<Rightarrow> state \<Rightarrow> activity list \<times> state" where
  "detectSuspiciousActivity js now s =
     (case readFileSync s auditLogPath of
        Inl e \<Rightarrow> ([], log (Err ''Erro ao detectar atividades suspeitas:'') s)
      | Inr logData \<Rightarrow>
          (let cutoffTime = toISOString js (now - 24 * 60 * 60 * 1000);
               recentEntries = collectRecent js cutoffTime (lines_of logData) [];
               userActivity = fold (groupBy (\<lambda>entry. show_str (user entry))) recentEntries [];
               ipActivity = fold (groupBy (\<lambda>entry. show_str (ip entry))) recentEntries []
           in case checkUsers userActivity [] of
                Inl e \<Rightarrow> ([], log (Err ''Erro ao detectar atividades suspeitas:'') s)
              | Inr acts \<Rightarrow> (checkIPs ipActivity acts, s)))"

text \<open>
  \<^verbatim>\<open>cleanOldAuditLogs\<close>. The filter keeps a line that does not parse, and a line whose time
  stamp is a date later than the cut-off; the comparison with an invalid date is false. The
  lines kept are written over the log file itself. Every error is caught and logged.
\<close>

definition keepLine :: "env \<Rightarrow> int \<Rightarrow> string \<Rightarrow> bool" where
  "keepLine js cutoffDate line =
     (case JSON_parse js line of
        None \<Rightarrow> True
      | Some entry \<Rightarrow> num_gt (dateOf js (timestamp entry)) cutoffDate)"

definition cleanOldAuditLogs :: "env \<Rightarrow> securityConfig \<Rightarrow> int \<Rightarrow> state \<Rightarrow> state" where
  "cleanOldAuditLogs js cfg now s =
     (let cutoffDate = daysBefore js now (auditRetentionDays cfg)
      in case readFileSync s auditLogPath of
           Inl e \<Rightarrow> log (Err ''Erro ao limpar logs de auditoria antigos:'') s
         | Inr logData \<Rightarrow>
             (let lines = lines_of logData;
                  filteredLines = filter (keepLine js cutoffDate) lines
              in case writeFileSync s auditLogPath (join_nl filteredLines @ [CHR ''\<newline>'']) of
                   (Inl e, s1) \<Rightarrow> log (Err ''Erro ao limpar logs de auditoria antigos:'') s1
                 | (Inr u, s1) \<Rightarrow>
                     log (Info (''Logs de auditoria antigos removidos. Mantidos ''
                                @ show_nat (length filteredLines) @ '' de ''
                                @ show_nat (length lines) @ '' entradas.'')) s1))"

text \<open>
  The scan as a function of the entries parsed from the log: what
  \<^verbatim>\<open>detectSuspiciousActivity\<close> does once the lines that do not parse are passed over.
\<close>

definition scanEntries :: "env \<Rightarrow> int \<Rightarrow> entry list \<Rightarrow> state \<Rightarrow> activity list \<times> state" where
  "scanEntries js now es s =
     (let recentEntries =
            filter (\<lambda>e. js_gt (timestamp e) (toISOString js (now - 24 * 60 * 60 * 1000))) es
      in case checkUsers (fold (groupBy (\<lambda>entry. show_str (user entry))) recentEntries []) [] of
           Inl e \<Rightarrow> ([], log (Err ''Erro ao detectar atividades suspeitas:'') s)
         | Inr acts \<Rightarrow>
             (checkIPs (fold (groupBy (\<lambda>entry. show_str (ip entry))) recentEntries []) acts, s))"

section \<open>NotificationService\<close>

text \<open>
  A notification is an object whose properties may be absent: \<^verbatim>\<open>sendNotification\<close> sets them
  all, an imported one has what its text had. The id, the type, the message and the time
  stamp are strings, \<^verbatim>\<open>read\<close> is a boolean, and \<^verbatim>\<open>details\<close> is an object whose values are
  strings, given by its properties in their order. The service holds the notifications, the
  subscribers (a \<^verbatim>\<open>Map\<close> from event type to the array of callbacks, in the order they were
  pushed), the number of ids generated so far, and its logger and files.
\<close>

record notification =
  id_n :: "string option"
  type_n :: "string option"
  message_n :: "string option"
  details :: "(string \<times> string) list option"
  timestamp_n :: "string option"
  read :: "bool option"


















text \<open>
  \<^verbatim>\<open>JSON.stringify(value, null, 2)\<close> on the notifications. A string is written between
  double quotes, with the escapes of \<^verbatim>\<open>QuoteJSONString\<close>: the double quote and the backslash
  after a backslash, the control characters 8, 9, 10, 12 and 13 as \<^verbatim>\<open>\b \t \n \f \r\<close>, every
  other character below 32 as \<^verbatim>\<open>\u00\<close> and two hexadecimal digits in lower case, every
  other character as it is.
\<close>

definition hexDigit :: "nat \<Rightarrow> char" where
  "hexDigit k = (if k < 10 then char_of (48 + k) else char_of (87 + k))"

definition quoteChar :: "char \<Rightarrow> string" where
  "quoteChar c =
     (let k = (of_char c :: nat)
      in if k = 34 then [CHR 0x5C, CHR 0x22]
         else if k = 92 then [CHR 0x5C, CHR 0x5C]
         else if k = 8 then [CHR 0x5C, CHR ''b'']
         else if k = 12 then [CHR 0x5C, CHR ''f'']
         else if k = 10 then [CHR 0x5C, CHR ''n'']
         else if k = 13 then [CHR 0x5C, CHR ''r'']
         else if k = 9 then [CHR 0x5C, CHR ''t'']
         else if k < 32
           then [CHR 0x5C, CHR ''u'', CHR ''0'', CHR ''0'', hexDigit (k div 16), hexDigit (k mod 16)]
         else [c])"

definition quoteJSONString :: "string \<Rightarrow> string" where
  "quoteJSONString s = CHR 0x22 # concat (map quoteChar s) @ [CHR 0x22]"




text \<open>
  The properties of a notification, in the order in which \<^verbatim>\<open>sendNotification\<close> writes them,
  and their values: strings, a boolean, and the object \<^verbatim>\<open>details\<close>, whose values are strings.
  (An object that had no \<^verbatim>\<open>id\<close> before \<^verbatim>\<open>importNotifications\<close> gave it one has it last; the
  record does not keep the order, and the text of such an object differs from the one
  written here in the place of its \<^verbatim>\<open>id\<close> line only.)
\<close>

datatype jvalue = JString string | JBool bool | JObject "(string \<times> string) list"

definition property :: "string \<Rightarrow> 'a option \<Rightarrow> (string \<times> 'a) list" where
  "property k v = (case v of None \<Rightarrow> [] | Some x \<Rightarrow> [(k, x)])"

definition properties :: "notification \<Rightarrow> (string \<times> jvalue) list" where
  "properties n =
     property ''id'' (map_option JString (id_n n))
     @ property ''type'' (map_option JString (type_n n))
     @ property ''message'' (map_option JString (message_n n))
     @ property ''details'' (map_option JObject (details n))
     @ property ''timestamp'' (map_option JString (timestamp_n n))
     @ property ''read'' (map_option JBool (read n))"

































section \<open>A concrete environment\<close>

text \<open>
  An environment, a configuration and a few log lines to run the model on: the library
  functions are given by their values on these lines and instants, the local time zone is UTC.
\<close>

definition line_bob :: string where
  \<open>line_bob = ''{"timestamp":"2024-05-01T10:00:00.000Z","user":"bob","operation":"LOGIN","success":false}''\<close>

definition line_alice :: string where
  \<open>line_alice = ''{"timestamp":"2024-05-01T09:59:00.000Z","user":"alice","operation":"SELECT","resource":"USERS","success":true}''\<close>

definition line_old :: string where
  \<open>line_old = ''{"timestamp":"2024-01-01T10:00:00.000Z","user":"alice","operation":"SELECT","success":true}''\<close>

definition line_note :: string where
  \<open>line_note = ''{"note":"x"}''\<close>

definition no_entry :: entry where
  "no_entry = \<lparr>timestamp = None, user = None, operation = None, resource = None, query = None,
                success = None, message = None, ip = None, userAgent = None\<rparr>"

definition entry_bob :: entry where
  "entry_bob = no_entry\<lparr>timestamp := Some ''2024-05-01T10:00:00.000Z'', user := Some ''bob'',
                          operation := Some ''LOGIN'', success := Some False\<rparr>"

definition entry_alice :: entry where
  "entry_alice = no_entry\<lparr>timestamp := Some ''2024-05-01T09:59:00.000Z'', user := Some ''alice'',
                            operation := Some ''SELECT'', resource := Some ''USERS'',
                            success := Some True\<rparr>"

definition entry_old :: entry where
  "entry_old = no_entry\<lparr>timestamp := Some ''2024-01-01T10:00:00.000Z'', user := Some ''alice'',
                          operation := Some ''SELECT'', success := Some True\<rparr>"

text \<open>
  Lines beside bob's failed logins: a failed login of alice, a successful login of bob, a
  failed login of bob twenty-three minutes before \<open>demo_now\<close>, and one six and a half minutes
  before it.
\<close>

definition line_alice_fail :: string where
  \<open>line_alice_fail = ''{"timestamp":"2024-05-01T10:01:00.000Z","user":"alice","operation":"LOGIN","success":false}''\<close>

definition line_bob_ok :: string where
  \<open>line_bob_ok = ''{"timestamp":"2024-05-01T10:01:30.000Z","user":"bob","operation":"LOGIN","success":true}''\<close>

definition line_bob_old :: string where
  \<open>line_bob_old = ''{"timestamp":"2024-05-01T09:40:00.000Z","user":"bob","operation":"LOGIN","success":false}''\<close>

definition line_bob_7min :: string where
  \<open>line_bob_7min = ''{"timestamp":"2024-05-01T09:56:30.000Z","user":"bob","operation":"LOGIN","success":false}''\<close>

definition entry_alice_fail :: entry where
  "entry_alice_fail = no_entry\<lparr>timestamp := Some ''2024-05-01T10:01:00.000Z'',
                                 user := Some ''alice'', operation := Some ''LOGIN'',
                                 success := Some False\<rparr>"

definition entry_bob_ok :: entry where
  "entry_bob_ok = no_entry\<lparr>timestamp := Some ''2024-05-01T10:01:30.000Z'', user := Some ''bob'',
                             operation := Some ''LOGIN'', success := Some True\<rparr>"

definition entry_bob_old :: entry where
  "entry_bob_old = no_entry\<lparr>timestamp := Some ''2024-05-01T09:40:00.000Z'', user := Some ''bob'',
                              operation := Some ''LOGIN'', success := Some False\<rparr>"

definition entry_bob_7min :: entry where
  "entry_bob_7min = no_entry\<lparr>timestamp := Some ''2024-05-01T09:56:30.000Z'', user := Some ''bob'',
                               operation := Some ''LOGIN'', success := Some False\<rparr>"

text \<open>Upper case of the ASCII letters, which is what \<^verbatim>\<open>toUpperCase\<close> does on ASCII strings.\<close>

definition ascii_upper :: "char \<Rightarrow> char" where
  "ascii_upper c =
     (let n = (of_char c :: nat) in if 97 \<le> n \<and> n \<le> 122 then char_of (n - 32) else c)"

definition digit :: "char \<Rightarrow> int" where
  "digit c = int (of_char c) - 48"

definition demo_event :: "string \<Rightarrow> string \<Rightarrow> string" where
  \<open>demo_event ev sv = ''{"event":"'' @ ev @ ''","severity":"'' @ sv @ ''"}''\<close>

definition demo_js :: env where
  \<open>demo_js =
     \<lparr>JSON_parse = (\<lambda>l. if l = line_bob then Some entry_bob
                        else if l = line_alice then Some entry_alice
                        else if l = line_old then Some entry_old
                        else if l = line_note then Some no_entry
                        else if l = line_alice_fail then Some entry_alice_fail
                        else if l = line_bob_ok then Some entry_bob_ok
                        else if l = line_bob_old then Some entry_bob_old
                        else if l = line_bob_7min then Some entry_bob_7min
                        else None),
      JSON_stringify = (\<lambda>e. if e = entry_bob then line_bob
                            else if e = entry_alice then line_alice
                            else if e = entry_old then line_old else line_note),
      JSON_stringify_event = (\<lambda>e. demo_event (se_event e) (se_severity e)),
      toUpperCase = map ascii_upper,
      toISOString = (\<lambda>t. if t = 1714557780000 then ''2024-05-01T10:03:00.000Z''
                          else if t = 1714557480000 then ''2024-05-01T09:58:00.000Z''
                          else if t = 1714557180000 then ''2024-05-01T09:53:00.000Z''
                          else if t = 1714471380000 then ''2024-04-30T10:03:00.000Z''
                          else ''1970-01-01T00:00:00.000Z''),
      getHours = (\<lambda>x. if length x = 24 then Some (10 * digit (x ! 11) + digit (x ! 12))
                      else None),
      getTime = (\<lambda>x. if x = ''2024-05-01T10:00:00.000Z'' then Some 1714557600000
                      else if x = ''2024-05-01T09:59:00.000Z'' then Some 1714557540000
                      else if x = ''2024-01-01T10:00:00.000Z'' then Some 1704103200000
                      else None),
      daysBefore = (\<lambda>t n. t - n * 86400000),
      replacePassword = (\<lambda>q. q),
      sortByDateDesc = (\<lambda>es. es),
      CLIENT_IP = None,
      USER_AGENT = None\<rparr>\<close>

definition demo_cfg :: securityConfig where
  "demo_cfg = \<lparr>sensitiveTables = [''USERS'', ''PASSWORDS'', ''CREDENTIALS'', ''TOKENS''],
               maxFailedAttempts = 5, lockoutDuration = 300000, auditRetentionDays = 90\<rparr>"

definition demo_now :: int where
  "demo_now = 1714557780000"

definition log_state :: "string \<Rightarrow> state" where
  "log_state logData = \<lparr>files = [auditLogPath \<mapsto> logData], faults = Map.empty, logger = []\<rparr>"

text \<open>
  Logs for the repeated-failure rule: the three other lines after six, or after four, failed
  logins of bob; and six failed logins of bob that are older than five minutes and younger
  than ten.
\<close>

definition other_lines :: string where
  "other_lines =
     line_alice_fail @ [CHR ''\<newline>''] @ line_bob_ok @ [CHR ''\<newline>''] @ line_bob_old
     @ [CHR ''\<newline>'']"

definition six_failed :: string where
  "six_failed = concat (replicate 6 (line_bob @ [CHR ''\<newline>''])) @ other_lines"

definition four_failed :: string where
  "four_failed = concat (replicate 4 (line_bob @ [CHR ''\<newline>''])) @ other_lines"

definition six_earlier :: string where
  "six_earlier = concat (replicate 6 (line_bob_7min @ [CHR ''\<newline>'']))"

definition cfg_ten :: securityConfig where
  "cfg_ten = demo_cfg\<lparr>lockoutDuration := 600000\<rparr>"

text \<open>Entries and a configuration for the sensitive-table rule and the unusual-time rule.\<close>

definition entry_app_users :: entry where
  "entry_app_users = no_entry\<lparr>timestamp := Some ''2024-05-01T10:00:00.000Z'',
                                user := Some ''alice'', operation := Some ''SELECT'',
                                resource := Some ''app_users_2024'', success := Some False\<rparr>"

definition entry_users_lower :: entry where
  "entry_users_lower = no_entry\<lparr>timestamp := Some ''2024-05-01T10:00:00.000Z'',
                                  user := Some ''alice'', operation := Some ''SELECT'',
                                  resource := Some ''users'', success := Some True\<rparr>"

definition cfg_lower :: securityConfig where
  "cfg_lower = demo_cfg\<lparr>sensitiveTables := [''users'']\<rparr>"

definition entry_noon :: entry where
  "entry_noon = no_entry\<lparr>timestamp := Some ''2024-05-01T12:00:00.000Z'', user := Some ''alice'',
                           operation := Some ''SELECT'', success := Some True\<rparr>"


definition entry_late :: entry where
  "entry_late = no_entry\<lparr>timestamp := Some ''2024-05-01T22:30:00.000Z'', user := Some ''alice'',
                           operation := Some ''SELECT'', success := Some True\<rparr>"

definition entry_night :: entry where
  "entry_night = no_entry\<lparr>timestamp := Some ''2024-05-01T23:30:00.000Z'', user := Some ''alice'',
                            operation := Some ''SELECT'', success := Some True\<rparr>"

definition line_bad :: string where
  "line_bad = ''not json''"

definition opts0 :: options where
  "opts0 = \<lparr>startDate = None, endDate = None, user_o = None, operation_o = None,
            success_o = None\<rparr>"

definition log_bad_alice :: string where
  "log_bad_alice = line_bad @ [CHR ''\<newline>''] @ line_alice @ [CHR ''\<newline>'']"

definition log_alice :: string where
  "log_alice = line_alice @ [CHR ''\<newline>'']"

definition log_old :: string where
  "log_old = line_old @ [CHR ''\<newline>'']"

definition log_old_bob :: string where
  "log_old_bob = line_old @ [CHR ''\<newline>''] @ line_bob @ [CHR ''\<newline>'']"

definition log_note_bob :: string where
  "log_note_bob = line_note @ [CHR ''\<newline>''] @ line_bob @ [CHR ''\<newline>'']"

definition log_bob :: string where
  "log_bob = line_bob @ [CHR ''\<newline>'']"

definition faulty_state :: "fault \<Rightarrow> string \<Rightarrow> state" where
  "faulty_state f logData =
     \<lparr>files = [auditLogPath \<mapsto> logData], faults = [auditLogPath \<mapsto> f], logger = []\<rparr>"


text \<open>A log with a line that is no JSON text, and the line \<^verbatim>\<open>null\<close>.\<close>

definition log_bad_null_old_bob :: string where
  "log_bad_null_old_bob =
     line_bad @ [CHR ''\<newline>''] @ ''null'' @ [CHR ''\<newline>''] @ line_old @ [CHR ''\<newline>'']
     @ line_bob @ [CHR ''\<newline>'']"

definition log_bad_null_bob :: string where
  "log_bad_null_bob =
     line_bad @ [CHR ''\<newline>''] @ ''null'' @ [CHR ''\<newline>''] @ line_bob @ [CHR ''\<newline>'']"













section \<open>Properties of the inline checker\<close>

lemma countFailedAttempts_filter:
  "countFailedAttempts js usr c ls n = n + length (filter (failedAttempt js usr c) ls)"
  by (induction ls arbitrary: n) simp_all

lemma collectOperations_append:
  "collectOperations js usr c ls acc = acc @ collectOperations js usr c ls []"
proof (induction ls arbitrary: acc)
  case Nil
  then show ?case by simp
next
  case (Cons l ls)
  show ?case
    using Cons.IH [of "case recentOperation js usr c l of None \<Rightarrow> acc | Some entry \<Rightarrow> acc @ [entry]"]
      Cons.IH [of "case recentOperation js usr c l of None \<Rightarrow> [] | Some entry \<Rightarrow> [] @ [entry]"]
    by (simp split: option.splits)
qed

lemma getRecentFailedAttempts_readable:
  "files s auditLogPath = Some logData \<Longrightarrow>
   getRecentFailedAttempts js now usr m s =
     (length (filter (failedAttempt js usr (toISOString js (now - m * 60 * 1000))) (lines_of logData)), s)"
  by (simp add: getRecentFailedAttempts_def readFileSync_def countFailedAttempts_filter)

lemma getRecentOperations_readable:
  "files s auditLogPath = Some logData \<Longrightarrow>
   getRecentOperations js now usr m s =
     (collectOperations js usr (toISOString js (now - m * 60 * 1000)) (lines_of logData) [], s)"
  by (simp add: getRecentOperations_def readFileSync_def)

lemma failedAttempt_iff:
  "failedAttempt js usr c line \<longleftrightarrow>
     (\<exists>entry op t. JSON_parse js line = Some entry \<and> user entry = usr \<and>
        operation entry = Some op \<and> includes_str op ''LOGIN'' \<and> success entry \<noteq> Some True \<and>
        timestamp entry = Some t \<and> str_less c t)"
  by (auto simp: failedAttempt_def truthy_bool_def js_gt_def split: option.splits)

lemma state_eta: "\<lparr>files = files s, faults = faults s, logger = logger s\<rparr> = (s :: state)"
  by simp

lemma logSecurityEvent_appends:
  "files s auditLogPath = Some d \<Longrightarrow> faults s auditLogPath = None \<Longrightarrow>
   logSecurityEvent js now ev u a e s =
     \<lparr>files = (files s)(auditLogPath \<mapsto>
          d @ JSON_stringify_event js
                \<lparr>se_timestamp = toISOString js now, se_event = ev, se_user = u,
                 se_message = message_a a, se_severity = severity a, se_auditEntry = e\<rparr>
              @ [CHR ''\<newline>'']),
      faults = faults s,
      logger = logger s @ [Warn (''Evento de seguranca: '' @ ev)]\<rparr>"
  by (simp add: logSecurityEvent_def Let_def appendFileSync_def write_at_def log_def)

lemma fold_logSecurityEvent_appends:
  "files s auditLogPath = Some d \<Longrightarrow> faults s auditLogPath = None \<Longrightarrow>
   fold (\<lambda>a. logSecurityEvent js now (type a) u a e) acts s =
     \<lparr>files = (files s)(auditLogPath \<mapsto>
          d @ concat (map (\<lambda>a. JSON_stringify_event js
                                  \<lparr>se_timestamp = toISOString js now, se_event = type a,
                                   se_user = u, se_message = message_a a,
                                   se_severity = severity a, se_auditEntry = e\<rparr>
                                @ [CHR ''\<newline>'']) acts)),
      faults = faults s,
      logger = logger s @ map (\<lambda>a. Warn (''Evento de seguranca: '' @ type a)) acts\<rparr>"
proof (induction acts arbitrary: s d)
  case Nil
  then have "(files s)(auditLogPath \<mapsto> d) = files s" by (simp add: map_upd_triv)
  then show ?case by simp
next
  case (Cons a acts)
  let ?line = "JSON_stringify_event js
                 \<lparr>se_timestamp = toISOString js now, se_event = type a, se_user = u,
                  se_message = message_a a, se_severity = severity a, se_auditEntry = e\<rparr>
               @ [CHR ''\<newline>'']"
  let ?s1 = "\<lparr>files = (files s)(auditLogPath \<mapsto> d @ ?line), faults = faults s,
              logger = logger s @ [Warn (''Evento de seguranca: '' @ type a)]\<rparr>"
  have one: "logSecurityEvent js now (type a) u a e s = ?s1"
    using logSecurityEvent_appends [OF Cons.prems, of js now "type a" u a e] by simp
  have f: "files ?s1 auditLogPath = Some (d @ ?line)" and g: "faults ?s1 auditLogPath = None"
    using Cons.prems by simp_all
  show ?case
    unfolding fold_simps one Cons.IH [OF f g] by (auto simp: fun_eq_iff)
qed

lemma check_emits:
  assumes "files s auditLogPath = Some logData" and "faults s auditLogPath = None"
    and "operation e = Some op"
  shows "checkSuspiciousActivity js cfg now e s =
     (Inr (ruleActivities js cfg now e op logData),
      \<lparr>files = (files s)(auditLogPath \<mapsto>
          logData @ concat (map (\<lambda>a. JSON_stringify_event js
                                  \<lparr>se_timestamp = toISOString js now, se_event = type a,
                                   se_user = user e, se_message = message_a a,
                                   se_severity = severity a, se_auditEntry = e\<rparr>
                                @ [CHR ''\<newline>'']) (ruleActivities js cfg now e op logData))),
       faults = faults s,
       logger = logger s @ map (\<lambda>a. Warn (''Evento de seguranca: '' @ type a))
                             (ruleActivities js cfg now e op logData)\<rparr>)"
proof -
  have "checkSuspiciousActivity js cfg now e s =
     (Inr (ruleActivities js cfg now e op logData),
      fold (\<lambda>a. logSecurityEvent js now (type a) (user e) a e)
        (ruleActivities js cfg now e op logData) s)"
    by (simp add: checkSuspiciousActivity_def assms(3) ruleActivities_def
        getRecentFailedAttempts_readable [OF assms(1)]
        getRecentOperations_readable [OF assms(1)] Let_def)
  then show ?thesis
    by (simp only: fold_logSecurityEvent_appends [OF assms(1,2)])
qed

text \<open>
  An event is emitted by \<^verbatim>\<open>logSecurityEvent\<close>, which warns through the logger and appends a
  line to the audit log. The warnings a call of \<^verbatim>\<open>checkSuspiciousActivity\<close> adds to the
  logger are those of the activities it returns, in their order.
\<close>

lemma logSecurityEvent_warns:
  "filter isWarn (logger (logSecurityEvent js now ev u a e s)) =
     filter isWarn (logger s) @ [Warn (''Evento de seguranca: '' @ ev)]"
  by (simp add: logSecurityEvent_def Let_def appendFileSync_def write_at_def log_def
      split: option.splits fault.splits)

lemma fold_logSecurityEvent_warns:
  "filter isWarn (logger (fold (\<lambda>a. logSecurityEvent js now (type a) u a e) acts s)) =
     filter isWarn (logger s) @ map (\<lambda>a. Warn (''Evento de seguranca: '' @ type a)) acts"
  by (induction acts arbitrary: s) (simp_all add: logSecurityEvent_warns)

lemma getRecentFailedAttempts_warns:
  "filter isWarn (logger (snd (getRecentFailedAttempts js now u m s))) = filter isWarn (logger s)"
  by (simp add: getRecentFailedAttempts_def log_def split: sum.splits)

lemma getRecentOperations_warns:
  "filter isWarn (logger (snd (getRecentOperations js now u m s))) = filter isWarn (logger s)"
  by (simp add: getRecentOperations_def log_def split: sum.splits)

lemma emitted_events_are_logged:
  assumes "checkSuspiciousActivity js cfg now e s = (Inr acts, s')"
  shows "filter isWarn (logger s') =
           filter isWarn (logger s) @ map (\<lambda>a. Warn (''Evento de seguranca: '' @ type a)) acts"
proof -
  obtain fl where fl: "(if \<not> truthy_bool (success e)
            then (case operation e of
                    None \<Rightarrow> Inl (TypeError ''Cannot read properties of undefined (reading includes)'')
                  | Some op \<Rightarrow> Inr (includes_str op ''LOGIN''))
            else Inr False) = Inr fl"
    using assms unfolding checkSuspiciousActivity_def by (auto split: sum.splits)
  obtain n s1 where r1: "(if fl then getRecentFailedAttempts js now (user e) 5 s else (0, s)) = (n, s1)"
    by (metis surj_pair)
  obtain ops s2 where r2: "getRecentOperations js now (user e) 10 s1 = (ops, s2)"
    by (metis surj_pair)
  have w1: "filter isWarn (logger s1) = filter isWarn (logger s)"
    using r1 getRecentFailedAttempts_warns [of js now "user e" 5 s]
    by (auto split: if_splits)
  have w2: "filter isWarn (logger s2) = filter isWarn (logger s1)"
    using r2 getRecentOperations_warns [of js now "user e" 10 s1] by simp
  have "checkSuspiciousActivity js cfg now e s =
      (Inr (multipleFailedLogins cfg e fl n @ sensitiveTableAccess js cfg e @ unusualTimeAccess js e
            @ highFrequencyOperations e ops),
       fold (\<lambda>a. logSecurityEvent js now (type a) (user e) a e)
         (multipleFailedLogins cfg e fl n @ sensitiveTableAccess js cfg e @ unusualTimeAccess js e
            @ highFrequencyOperations e ops) s2)"
    unfolding checkSuspiciousActivity_def fl by (simp add: r1 r2 Let_def)
  with assms have
    "s' = fold (\<lambda>a. logSecurityEvent js now (type a) (user e) a e) acts s2"
    by auto
  then show ?thesis
    by (simp only: fold_logSecurityEvent_warns w1 w2)
qed

lemma type_multipleFailedLogins:
  "filter (\<lambda>a. type a = t) (multipleFailedLogins cfg e b n) =
     (if t = ''MULTIPLE_FAILED_LOGINS'' then multipleFailedLogins cfg e b n else [])"
  by (simp add: multipleFailedLogins_def)

lemma type_sensitiveTableAccess:
  "filter (\<lambda>a. type a = t) (sensitiveTableAccess js cfg e) =
     (if t = ''SENSITIVE_TABLE_ACCESS'' then sensitiveTableAccess js cfg e else [])"
  by (simp add: sensitiveTableAccess_def)

lemma type_unusualTimeAccess:
  "filter (\<lambda>a. type a = t) (unusualTimeAccess js e) =
     (if t = ''UNUSUAL_TIME_ACCESS'' then unusualTimeAccess js e else [])"
  by (simp add: unusualTimeAccess_def Let_def)

lemma type_highFrequencyOperations:
  "filter (\<lambda>a. type a = t) (highFrequencyOperations e ops) =
     (if t = ''HIGH_FREQUENCY_OPERATIONS'' then highFrequencyOperations e ops else [])"
  by (simp add: highFrequencyOperations_def)

lemma failed_logins_of_rules:
  "filter (\<lambda>a. type a = ''MULTIPLE_FAILED_LOGINS'') (ruleActivities js cfg now e op logData) =
     (if success e \<noteq> Some True \<and> includes_str op ''LOGIN'' \<and>
         maxFailedAttempts cfg \<le>
           length (filter (failedAttempt js (user e) (toISOString js (now - 5 * 60 * 1000)))
                    (lines_of logData))
      then [\<lparr>type = ''MULTIPLE_FAILED_LOGINS'',
             message_a = ''Multiplas tentativas de login falhadas para usuario ''
                         @ show_str (user e),
             severity = ''HIGH''\<rparr>]
      else [])"
  by (simp add: ruleActivities_def type_multipleFailedLogins type_sensitiveTableAccess
      type_unusualTimeAccess type_highFrequencyOperations)
    (auto simp: multipleFailedLogins_def truthy_bool_def split: option.splits)

lemma sensitive_of_rules:
  "filter (\<lambda>a. type a = ''SENSITIVE_TABLE_ACCESS'') (ruleActivities js cfg now e op logData) =
     (if \<exists>table \<in> set (sensitiveTables cfg).
           \<exists>r. resource e = Some r \<and> r \<noteq> [] \<and> includes_str (toUpperCase js r) table
      then [\<lparr>type = ''SENSITIVE_TABLE_ACCESS'',
             message_a = ''Acesso a tabela sensivel: '' @ show_str (resource e),
             severity = ''MEDIUM''\<rparr>]
      else [])"
  by (simp add: ruleActivities_def type_multipleFailedLogins type_sensitiveTableAccess
      type_unusualTimeAccess type_highFrequencyOperations)
    (auto simp: sensitiveTableAccess_def list_ex_iff sensitiveMatch_def split: option.splits)

lemma unusual_of_rules:
  "filter (\<lambda>a. type a = ''UNUSUAL_TIME_ACCESS'') (ruleActivities js cfg now e op logData) =
     (if \<exists>x h. timestamp e = Some x \<and> getHours js x = Some h \<and> (h < 6 \<or> 22 < h)
      then [\<lparr>type = ''UNUSUAL_TIME_ACCESS'',
             message_a = ''Acesso em horario nao usual: '' @ show_str (timestamp e),
             severity = ''LOW''\<rparr>]
      else [])"
  by (simp add: ruleActivities_def type_multipleFailedLogins type_sensitiveTableAccess
      type_unusualTimeAccess type_highFrequencyOperations)
    (auto simp: unusualTimeAccess_def Let_def hourOf_def num_lt_def num_gt_def
      split: option.splits)

text \<open>
  Claim C1 (repeated-failure rule), as the code has it. On a readable and writable log,
  for an entry that has an operation, \<^verbatim>\<open>checkSuspiciousActivity\<close> emits its activities one by
  one: each appends its line to the audit log and warns through the logger, and nothing else
  changes. Among them there is exactly one \<^verbatim>\<open>MULTIPLE_FAILED_LOGINS\<close>, at severity \<^verbatim>\<open>HIGH\<close>,
  when the entry is a failed login (its operation contains \<^verbatim>\<open>LOGIN\<close>, its success is not
  true) and at least \<^verbatim>\<open>maxFailedAttempts\<close> lines of the log parse to an entry of the same
  user whose operation contains \<^verbatim>\<open>LOGIN\<close>, whose success is not true and whose time stamp
  is later than five minutes before now; there is none otherwise. The five minutes are the
  constant of the call; no window is read from the configuration.
\<close>

theorem repeated_failure_rule:
  assumes "files s auditLogPath = Some logData" and "faults s auditLogPath = None"
    and "operation auditEntry = Some op"
  shows "\<exists>acts.
     checkSuspiciousActivity js cfg now auditEntry s =
       (Inr acts,
        \<lparr>files = (files s)(auditLogPath \<mapsto>
            logData @ concat (map (\<lambda>a. JSON_stringify_event js
                                    \<lparr>se_timestamp = toISOString js now, se_event = type a,
                                     se_user = user auditEntry, se_message = message_a a,
                                     se_severity = severity a, se_auditEntry = auditEntry\<rparr>
                                  @ [CHR ''\<newline>'']) acts)),
         faults = faults s,
         logger = logger s @ map (\<lambda>a. Warn (''Evento de seguranca: '' @ type a)) acts\<rparr>) \<and>
     filter (\<lambda>a. type a = ''MULTIPLE_FAILED_LOGINS'') acts =
       (if success auditEntry \<noteq> Some True \<and> includes_str op ''LOGIN'' \<and>
           maxFailedAttempts cfg \<le>
             length (filter
               (\<lambda>line. \<exists>entry op' t.
                  JSON_parse js line = Some entry \<and> user entry = user auditEntry \<and>
                  operation entry = Some op' \<and> includes_str op' ''LOGIN'' \<and>
                  success entry \<noteq> Some True \<and> timestamp entry = Some t \<and>
                  str_less (toISOString js (now - 5 * 60 * 1000)) t)
               (lines_of logData))
        then [\<lparr>type = ''MULTIPLE_FAILED_LOGINS'',
               message_a = ''Multiplas tentativas de login falhadas para usuario ''
                           @ show_str (user auditEntry),
               severity = ''HIGH''\<rparr>]
        else [])"
proof -
  have c: "filter
               (\<lambda>line. \<exists>entry op' t.
                  JSON_parse js line = Some entry \<and> user entry = user auditEntry \<and>
                  operation entry = Some op' \<and> includes_str op' ''LOGIN'' \<and>
                  success entry \<noteq> Some True \<and> timestamp entry = Some t \<and>
                  str_less (toISOString js (now - 5 * 60 * 1000)) t)
               (lines_of logData)
        = filter (failedAttempt js (user auditEntry) (toISOString js (now - 5 * 60 * 1000)))
            (lines_of logData)"
    by (rule filter_cong) (simp_all only: failedAttempt_iff)
  show ?thesis
    unfolding c
    by (rule exI [of _ "ruleActivities js cfg now auditEntry op logData"])
       (simp only: check_emits [OF assms] failed_logins_of_rules simp_thms)
qed

lemma log_state_simps:
  "files (log_state d) auditLogPath = Some d" "faults (log_state d) auditLogPath = None"
  "files (log_state d) = [auditLogPath \<mapsto> d]" "faults (log_state d) = Map.empty"
  "logger (log_state d) = []"
  by (simp_all add: log_state_def)

lemma demo_event_line:
  "JSON_stringify_event demo_js
      \<lparr>se_timestamp = t, se_event = ev, se_user = u, se_message = m, se_severity = sv,
       se_auditEntry = e\<rparr>
    = demo_event ev sv"
  by (simp add: demo_js_def)

lemma six_failed_run:
  "fst (checkSuspiciousActivity demo_js demo_cfg demo_now entry_bob (log_state six_failed)) =
     Inr [\<lparr>type = ''MULTIPLE_FAILED_LOGINS'',
           message_a = ''Multiplas tentativas de login falhadas para usuario bob'',
           severity = ''HIGH''\<rparr>]"
  by code_simp

lemma four_failed_run:
  "fst (checkSuspiciousActivity demo_js demo_cfg demo_now entry_bob (log_state four_failed)) = Inr []"
  by code_simp

theorem repeated_failure_rule_witness:
  "files (log_state six_failed) auditLogPath = Some six_failed \<and>
   faults (log_state six_failed) auditLogPath = None \<and>
   operation entry_bob = Some ''LOGIN'' \<and>
   checkSuspiciousActivity demo_js demo_cfg demo_now entry_bob (log_state six_failed) =
     (Inr [\<lparr>type = ''MULTIPLE_FAILED_LOGINS'',
            message_a = ''Multiplas tentativas de login falhadas para usuario bob'',
            severity = ''HIGH''\<rparr>],
      \<lparr>files = [auditLogPath \<mapsto>
                  six_failed @ demo_event ''MULTIPLE_FAILED_LOGINS'' ''HIGH''
                  @ [CHR ''\<newline>'']],
       faults = Map.empty,
       logger = [Warn ''Evento de seguranca: MULTIPLE_FAILED_LOGINS'']\<rparr>) \<and>
   checkSuspiciousActivity demo_js demo_cfg demo_now entry_bob (log_state four_failed) =
     (Inr [], log_state four_failed)"
proof -
  have o: "operation entry_bob = Some ''LOGIN''"
    by (simp add: entry_bob_def)
  obtain acts where a:
    "checkSuspiciousActivity demo_js demo_cfg demo_now entry_bob (log_state six_failed) =
       (Inr acts,
        \<lparr>files = (files (log_state six_failed))(auditLogPath \<mapsto>
            six_failed @ concat (map (\<lambda>a. JSON_stringify_event demo_js
                                    \<lparr>se_timestamp = toISOString demo_js demo_now, se_event = type a,
                                     se_user = user entry_bob, se_message = message_a a,
                                     se_severity = severity a, se_auditEntry = entry_bob\<rparr>
                                  @ [CHR ''\<newline>'']) acts)),
         faults = faults (log_state six_failed),
         logger = logger (log_state six_failed)
                  @ map (\<lambda>a. Warn (''Evento de seguranca: '' @ type a)) acts\<rparr>)"
    using repeated_failure_rule [OF log_state_simps(1) log_state_simps(2) o,
        where js = demo_js and cfg = demo_cfg and now = demo_now and logData = six_failed]
    by blast
  have acts: "acts = [\<lparr>type = ''MULTIPLE_FAILED_LOGINS'',
           message_a = ''Multiplas tentativas de login falhadas para usuario bob'',
           severity = ''HIGH''\<rparr>]"
    using a six_failed_run by simp
  have one: "checkSuspiciousActivity demo_js demo_cfg demo_now entry_bob (log_state six_failed) =
     (Inr [\<lparr>type = ''MULTIPLE_FAILED_LOGINS'',
            message_a = ''Multiplas tentativas de login falhadas para usuario bob'',
            severity = ''HIGH''\<rparr>],
      \<lparr>files = [auditLogPath \<mapsto>
                  six_failed @ demo_event ''MULTIPLE_FAILED_LOGINS'' ''HIGH''
                  @ [CHR ''\<newline>'']],
       faults = Map.empty,
       logger = [Warn ''Evento de seguranca: MULTIPLE_FAILED_LOGINS'']\<rparr>)"
    unfolding a acts by (simp add: log_state_simps demo_event_line)
  obtain acts4 where b:
    "checkSuspiciousActivity demo_js demo_cfg demo_now entry_bob (log_state four_failed) =
       (Inr acts4,
        \<lparr>files = (files (log_state four_failed))(auditLogPath \<mapsto>
            four_failed @ concat (map (\<lambda>a. JSON_stringify_event demo_js
                                    \<lparr>se_timestamp = toISOString demo_js demo_now, se_event = type a,
                                     se_user = user entry_bob, se_message = message_a a,
                                     se_severity = severity a, se_auditEntry = entry_bob\<rparr>
                                  @ [CHR ''\<newline>'']) acts4)),
         faults = faults (log_state four_failed),
         logger = logger (log_state four_failed)
                  @ map (\<lambda>a. Warn (''Evento de seguranca: '' @ type a)) acts4\<rparr>)"
    using repeated_failure_rule [OF log_state_simps(1) log_state_simps(2) o,
        where js = demo_js and cfg = demo_cfg and now = demo_now and logData = four_failed]
    by blast
  have acts4: "acts4 = []"
    using b four_failed_run by simp
  have two: "checkSuspiciousActivity demo_js demo_cfg demo_now entry_bob (log_state four_failed) =
     (Inr [], log_state four_failed)"
    unfolding b acts4 by (simp add: log_state_def)
  show ?thesis
    by (intro conjI) (rule log_state_simps(1) log_state_simps(2) o one two)+
qed

text \<open>
  The claim C1 counts within a configured window. With ten minutes configured and a threshold
  of five, six failed logins of bob that are six and a half minutes old are within the
  configured duration, and evaluating one of them emits nothing.
\<close>

theorem configured_window_counterexample:
  "lockoutDuration cfg_ten = 600000 \<and> maxFailedAttempts cfg_ten = 5 \<and>
   length (filter (failedAttempt demo_js (Some ''bob'')
                     (toISOString demo_js (demo_now - lockoutDuration cfg_ten)))
             (lines_of six_earlier)) = 6 \<and>
   fst (checkSuspiciousActivity demo_js cfg_ten demo_now entry_bob_7min (log_state six_earlier))
     = Inr [] \<and>
   logger (snd (checkSuspiciousActivity demo_js cfg_ten demo_now entry_bob_7min
                  (log_state six_earlier))) = [] \<and>
   files (snd (checkSuspiciousActivity demo_js cfg_ten demo_now entry_bob_7min
                 (log_state six_earlier))) auditLogPath = Some six_earlier"
  by code_simp

text \<open>
  Claim C2 (sensitive-resource rule), as the code has it. On a readable and writable log,
  for an entry that has an operation, \<^verbatim>\<open>checkSuspiciousActivity\<close> emits its activities (a line
  appended to the audit log and a warning for each), and among them there is exactly one
  \<^verbatim>\<open>SENSITIVE_TABLE_ACCESS\<close>, at severity \<^verbatim>\<open>MEDIUM\<close>, when the resource of the entry is not
  empty and its upper case contains one of the configured \<^verbatim>\<open>sensitiveTables\<close> names, as that
  name is written in the configuration; there is none otherwise. The success flag plays no
  part.
\<close>

theorem sensitive_table_rule:
  assumes "files s auditLogPath = Some logData" and "faults s auditLogPath = None"
    and "operation auditEntry = Some op"
  shows "\<exists>acts.
     checkSuspiciousActivity js cfg now auditEntry s =
       (Inr acts,
        \<lparr>files = (files s)(auditLogPath \<mapsto>
            logData @ concat (map (\<lambda>a. JSON_stringify_event js
                                    \<lparr>se_timestamp = toISOString js now, se_event = type a,
                                     se_user = user auditEntry, se_message = message_a a,
                                     se_severity = severity a, se_auditEntry = auditEntry\<rparr>
                                  @ [CHR ''\<newline>'']) acts)),
         faults = faults s,
         logger = logger s @ map (\<lambda>a. Warn (''Evento de seguranca: '' @ type a)) acts\<rparr>) \<and>
     filter (\<lambda>a. type a = ''SENSITIVE_TABLE_ACCESS'') acts =
       (if \<exists>table \<in> set (sensitiveTables cfg).
             \<exists>r. resource auditEntry = Some r \<and> r \<noteq> [] \<and>
                 includes_str (toUpperCase js r) table
        then [\<lparr>type = ''SENSITIVE_TABLE_ACCESS'',
               message_a = ''Acesso a tabela sensivel: '' @ show_str (resource auditEntry),
               severity = ''MEDIUM''\<rparr>]
        else [])"
  by (rule exI [of _ "ruleActivities js cfg now auditEntry op logData"])
     (simp only: check_emits [OF assms] sensitive_of_rules simp_thms)

lemma app_users_run:
  "fst (checkSuspiciousActivity demo_js demo_cfg demo_now entry_app_users (log_state [])) =
     Inr [\<lparr>type = ''SENSITIVE_TABLE_ACCESS'',
           message_a = ''Acesso a tabela sensivel: app_users_2024'',
           severity = ''MEDIUM''\<rparr>]"
  by code_simp

lemma users_lower_run:
  "fst (checkSuspiciousActivity demo_js cfg_lower demo_now entry_users_lower (log_state [])) = Inr []"
  by code_simp

theorem sensitive_table_rule_witness:
  "files (log_state []) auditLogPath = Some [] \<and>
   faults (log_state []) auditLogPath = None \<and>
   operation entry_app_users = Some ''SELECT'' \<and>
   operation entry_users_lower = Some ''SELECT'' \<and>
   checkSuspiciousActivity demo_js demo_cfg demo_now entry_app_users (log_state []) =
     (Inr [\<lparr>type = ''SENSITIVE_TABLE_ACCESS'',
            message_a = ''Acesso a tabela sensivel: app_users_2024'',
            severity = ''MEDIUM''\<rparr>],
      \<lparr>files = [auditLogPath \<mapsto>
                  demo_event ''SENSITIVE_TABLE_ACCESS'' ''MEDIUM'' @ [CHR ''\<newline>'']],
       faults = Map.empty,
       logger = [Warn ''Evento de seguranca: SENSITIVE_TABLE_ACCESS'']\<rparr>) \<and>
   checkSuspiciousActivity demo_js cfg_lower demo_now entry_users_lower (log_state []) =
     (Inr [], log_state [])"
proof -
  have o: "operation entry_app_users = Some ''SELECT''"
    by (simp add: entry_app_users_def)
  have o2: "operation entry_users_lower = Some ''SELECT''"
    by (simp add: entry_users_lower_def)
  obtain acts where a:
    "checkSuspiciousActivity demo_js demo_cfg demo_now entry_app_users (log_state []) =
       (Inr acts,
        \<lparr>files = (files (log_state []))(auditLogPath \<mapsto>
            [] @ concat (map (\<lambda>a. JSON_stringify_event demo_js
                                    \<lparr>se_timestamp = toISOString demo_js demo_now, se_event = type a,
                                     se_user = user entry_app_users, se_message = message_a a,
                                     se_severity = severity a, se_auditEntry = entry_app_users\<rparr>
                                  @ [CHR ''\<newline>'']) acts)),
         faults = faults (log_state []),
         logger = logger (log_state [])
                  @ map (\<lambda>a. Warn (''Evento de seguranca: '' @ type a)) acts\<rparr>)"
    using sensitive_table_rule [OF log_state_simps(1) log_state_simps(2) o,
        where js = demo_js and cfg = demo_cfg and now = demo_now and logData = "[]"]
    by blast
  have acts: "acts = [\<lparr>type = ''SENSITIVE_TABLE_ACCESS'',
           message_a = ''Acesso a tabela sensivel: app_users_2024'',
           severity = ''MEDIUM''\<rparr>]"
    using a app_users_run by simp
  have one: "checkSuspiciousActivity demo_js demo_cfg demo_now entry_app_users (log_state []) =
     (Inr [\<lparr>type = ''SENSITIVE_TABLE_ACCESS'',
            message_a = ''Acesso a tabela sensivel: app_users_2024'',
            severity = ''MEDIUM''\<rparr>],
      \<lparr>files = [auditLogPath \<mapsto>
                  demo_event ''SENSITIVE_TABLE_ACCESS'' ''MEDIUM'' @ [CHR ''\<newline>'']],
       faults = Map.empty,
       logger = [Warn ''Evento de seguranca: SENSITIVE_TABLE_ACCESS'']\<rparr>)"
    unfolding a acts by (simp add: log_state_simps demo_event_line)
  obtain acts2 where b:
    "checkSuspiciousActivity demo_js cfg_lower demo_now entry_users_lower (log_state []) =
       (Inr acts2,
        \<lparr>files = (files (log_state []))(auditLogPath \<mapsto>
            [] @ concat (map (\<lambda>a. JSON_stringify_event demo_js
                                    \<lparr>se_timestamp = toISOString demo_js demo_now, se_event = type a,
                                     se_user = user entry_users_lower, se_message = message_a a,
                                     se_severity = severity a, se_auditEntry = entry_users_lower\<rparr>
                                  @ [CHR ''\<newline>'']) acts2)),
         faults = faults (log_state []),
         logger = logger (log_state [])
                  @ map (\<lambda>a. Warn (''Evento de seguranca: '' @ type a)) acts2\<rparr>)"
    using sensitive_table_rule [OF log_state_simps(1) log_state_simps(2) o2,
        where js = demo_js and cfg = cfg_lower and now = demo_now and logData = "[]"]
    by blast
  have acts2: "acts2 = []"
    using b users_lower_run by simp
  have two: "checkSuspiciousActivity demo_js cfg_lower demo_now entry_users_lower (log_state []) =
     (Inr [], log_state [])"
    unfolding b acts2 by (simp add: log_state_def)
  show ?thesis
    by (intro conjI) (rule log_state_simps(1) log_state_simps(2) o o2 one two)+
qed

text \<open>
  The severity the claim C2 states is not the one emitted: for a successful access to
  \<^verbatim>\<open>USERS\<close> the only event, in the result, in the logger and in the log, is at severity
  \<^verbatim>\<open>MEDIUM\<close>.
\<close>

theorem sensitive_access_high_counterexample:
  "fst (checkSuspiciousActivity demo_js demo_cfg demo_now entry_alice (log_state log_alice))
     = Inr [\<lparr>type = ''SENSITIVE_TABLE_ACCESS'',
             message_a = ''Acesso a tabela sensivel: USERS'',
             severity = ''MEDIUM''\<rparr>] \<and>
   logger (snd (checkSuspiciousActivity demo_js demo_cfg demo_now entry_alice
                  (log_state log_alice)))
     = [Warn ''Evento de seguranca: SENSITIVE_TABLE_ACCESS''] \<and>
   files (snd (checkSuspiciousActivity demo_js demo_cfg demo_now entry_alice
                 (log_state log_alice))) auditLogPath
     = Some (log_alice @ demo_event ''SENSITIVE_TABLE_ACCESS'' ''MEDIUM'' @ [CHR ''\<newline>''])"
  by code_simp

text \<open>
  Claim C3 (unusual-time rule), as the code has it. On a readable and writable log, for an
  entry that has an operation, \<^verbatim>\<open>checkSuspiciousActivity\<close> emits its activities (a line
  appended to the audit log and a warning for each), and among them there is exactly one
  \<^verbatim>\<open>UNUSUAL_TIME_ACCESS\<close>, at severity \<^verbatim>\<open>LOW\<close>, when the local hour of the entry is below 6
  or above 22; there is none when the hour is from 6 to 22 or the time stamp is not a date.
\<close>

theorem unusual_time_rule:
  assumes "files s auditLogPath = Some logData" and "faults s auditLogPath = None"
    and "operation auditEntry = Some op"
  shows "\<exists>acts.
     checkSuspiciousActivity js cfg now auditEntry s =
       (Inr acts,
        \<lparr>files = (files s)(auditLogPath \<mapsto>
            logData @ concat (map (\<lambda>a. JSON_stringify_event js
                                    \<lparr>se_timestamp = toISOString js now, se_event = type a,
                                     se_user = user auditEntry, se_message = message_a a,
                                     se_severity = severity a, se_auditEntry = auditEntry\<rparr>
                                  @ [CHR ''\<newline>'']) acts)),
         faults = faults s,
         logger = logger s @ map (\<lambda>a. Warn (''Evento de seguranca: '' @ type a)) acts\<rparr>) \<and>
     filter (\<lambda>a. type a = ''UNUSUAL_TIME_ACCESS'') acts =
       (if \<exists>x h. timestamp auditEntry = Some x \<and> getHours js x = Some h \<and> (h < 6 \<or> 22 < h)
        then [\<lparr>type = ''UNUSUAL_TIME_ACCESS'',
               message_a = ''Acesso em horario nao usual: '' @ show_str (timestamp auditEntry),
               severity = ''LOW''\<rparr>]
        else [])"
  by (rule exI [of _ "ruleActivities js cfg now auditEntry op logData"])
     (simp only: check_emits [OF assms] unusual_of_rules simp_thms)

lemma night_run:
  "fst (checkSuspiciousActivity demo_js demo_cfg demo_now entry_night (log_state [])) =
     Inr [\<lparr>type = ''UNUSUAL_TIME_ACCESS'',
           message_a = ''Acesso em horario nao usual: 2024-05-01T23:30:00.000Z'',
           severity = ''LOW''\<rparr>]"
  by code_simp

lemma noon_run:
  "fst (checkSuspiciousActivity demo_js demo_cfg demo_now entry_noon (log_state [])) = Inr []"
  by code_simp

theorem unusual_time_rule_witness:
  "files (log_state []) auditLogPath = Some [] \<and>
   faults (log_state []) auditLogPath = None \<and>
   operation entry_night = Some ''SELECT'' \<and>
   operation entry_noon = Some ''SELECT'' \<and>
   checkSuspiciousActivity demo_js demo_cfg demo_now entry_night (log_state []) =
     (Inr [\<lparr>type = ''UNUSUAL_TIME_ACCESS'',
            message_a = ''Acesso em horario nao usual: 2024-05-01T23:30:00.000Z'',
            severity = ''LOW''\<rparr>],
      \<lparr>files = [auditLogPath \<mapsto>
                  demo_event ''UNUSUAL_TIME_ACCESS'' ''LOW'' @ [CHR ''\<newline>'']],
       faults = Map.empty,
       logger = [Warn ''Evento de seguranca: UNUSUAL_TIME_ACCESS'']\<rparr>) \<and>
   checkSuspiciousActivity demo_js demo_cfg demo_now entry_noon (log_state []) =
     (Inr [], log_state [])"
proof -
  have o: "operation entry_night = Some ''SELECT''"
    by (simp add: entry_night_def)
  have o2: "operation entry_noon = Some ''SELECT''"
    by (simp add: entry_noon_def)
  obtain acts where a:
    "checkSuspiciousActivity demo_js demo_cfg demo_now entry_night (log_state []) =
       (Inr acts,
        \<lparr>files = (files (log_state []))(auditLogPath \<mapsto>
            [] @ concat (map (\<lambda>a. JSON_stringify_event demo_js
                                    \<lparr>se_timestamp = toISOString demo_js demo_now, se_event = type a,
                                     se_user = user entry_night, se_message = message_a a,
                                     se_severity = severity a, se_auditEntry = entry_night\<rparr>
                                  @ [CHR ''\<newline>'']) acts)),
         faults = faults (log_state []),
         logger = logger (log_state [])
                  @ map (\<lambda>a. Warn (''Evento de seguranca: '' @ type a)) acts\<rparr>)"
    using unusual_time_rule [OF log_state_simps(1) log_state_simps(2) o,
        where js = demo_js and cfg = demo_cfg and now = demo_now and logData = "[]"]
    by blast
  have acts: "acts = [\<lparr>type = ''UNUSUAL_TIME_ACCESS'',
           message_a = ''Acesso em horario nao usual: 2024-05-01T23:30:00.000Z'',
           severity = ''LOW''\<rparr>]"
    using a night_run by simp
  have one: "checkSuspiciousActivity demo_js demo_cfg demo_now entry_night (log_state []) =
     (Inr [\<lparr>type = ''UNUSUAL_TIME_ACCESS'',
            message_a = ''Acesso em horario nao usual: 2024-05-01T23:30:00.000Z'',
            severity = ''LOW''\<rparr>],
      \<lparr>files = [auditLogPath \<mapsto>
                  demo_event ''UNUSUAL_TIME_ACCESS'' ''LOW'' @ [CHR ''\<newline>'']],
       faults = Map.empty,
       logger = [Warn ''Evento de seguranca: UNUSUAL_TIME_ACCESS'']\<rparr>)"
    unfolding a acts by (simp add: log_state_simps demo_event_line)
  obtain acts2 where b:
    "checkSuspiciousActivity demo_js demo_cfg demo_now entry_noon (log_state []) =
       (Inr acts2,
        \<lparr>files = (files (log_state []))(auditLogPath \<mapsto>
            [] @ concat (map (\<lambda>a. JSON_stringify_event demo_js
                                    \<lparr>se_timestamp = toISOString demo_js demo_now, se_event = type a,
                                     se_user = user entry_noon, se_message = message_a a,
                                     se_severity = severity a, se_auditEntry = entry_noon\<rparr>
                                  @ [CHR ''\<newline>'']) acts2)),
         faults = faults (log_state []),
         logger = logger (log_state [])
                  @ map (\<lambda>a. Warn (''Evento de seguranca: '' @ type a)) acts2\<rparr>)"
    using unusual_time_rule [OF log_state_simps(1) log_state_simps(2) o2,
        where js = demo_js and cfg = demo_cfg and now = demo_now and logData = "[]"]
    by blast
  have acts2: "acts2 = []"
    using b noon_run by simp
  have two: "checkSuspiciousActivity demo_js demo_cfg demo_now entry_noon (log_state []) =
     (Inr [], log_state [])"
    unfolding b acts2 by (simp add: log_state_def)
  show ?thesis
    by (intro conjI) (rule log_state_simps(1) log_state_simps(2) o o2 one two)+
qed

text \<open>
  At hour 22, which the claim C3 puts outside the usual hours, nothing is emitted: no
  activity, no warning, no line in the log.
\<close>

theorem unusual_time_22_counterexample:
  "getHours demo_js ''2024-05-01T22:30:00.000Z'' = Some 22 \<and>
   timestamp entry_late = Some ''2024-05-01T22:30:00.000Z'' \<and>
   fst (checkSuspiciousActivity demo_js demo_cfg demo_now entry_late (log_state [])) = Inr [] \<and>
   logger (snd (checkSuspiciousActivity demo_js demo_cfg demo_now entry_late (log_state []))) = [] \<and>
   files (snd (checkSuspiciousActivity demo_js demo_cfg demo_now entry_late (log_state [])))
     auditLogPath = Some []"
  by code_simp

section \<open>Properties of the reports and of the scan\<close>

lemma filterEntries_eq:
  "filterEntries js sd ed opts ls acc =
     acc @ filter (matchesFilters sd ed opts) (List.map_filter (JSON_parse js) ls)"
  by (induction ls arbitrary: acc) (simp_all split: option.splits)

lemma collectRecent_eq:
  "collectRecent js c ls acc =
     acc @ filter (\<lambda>e. js_gt (timestamp e) c) (List.map_filter (JSON_parse js) ls)"
  by (induction ls arbitrary: acc) (simp_all split: option.splits)

lemma map_filter_skip:
  "f l = None \<Longrightarrow> List.map_filter f (xs @ l # ys) = List.map_filter f (xs @ ys)"
  by (simp add: List.map_filter_def)

lemma formatAuditReport_Nil:
  "formatAuditReport js [] opts =
     [Relatorio_de_Auditoria, Periodo (startDate opts) (endDate opts), Total_de_operacoes 0,
      Nenhuma_operacao_encontrada]"
  by (simp add: formatAuditReport_def)

lemma js_percent_NaN: "js_percent a b = NaN \<longleftrightarrow> a = 0 \<and> b = 0"
  by (simp add: js_percent_def)

lemma assign_set: "p \<in> set (assign k v m) \<Longrightarrow> p = (k, v) \<or> p \<in> set m"
  by (induction m) (auto split: if_splits)

lemma countUser_total:
  assumes "\<forall>p \<in> set m. 0 < total (snd p)"
  shows "\<forall>p \<in> set (countUser e m). 0 < total (snd p)"
proof
  fix p assume "p \<in> set (countUser e m)"
  then show "0 < total (snd p)"
    using assms by (auto simp: countUser_def Let_def dest!: assign_set split: if_splits)
qed

lemma fold_countUser_total:
  "\<forall>p \<in> set m. 0 < total (snd p) \<Longrightarrow> \<forall>p \<in> set (fold countUser es m). 0 < total (snd p)"
proof (induction es arbitrary: m)
  case Nil
  then show ?case by simp
next
  case (Cons e es)
  from Cons.prems have "\<forall>p \<in> set (countUser e m). 0 < total (snd p)"
    by (rule countUser_total)
  then show ?case using Cons.IH by simp
qed

lemma userStats_total: "(k, st) \<in> set (fold countUser es []) \<Longrightarrow> 0 < total st"
  using fold_countUser_total [of "[]" es] by auto

lemma report_no_NaN:
  assumes "seg \<in> set (formatAuditReport js entries opts)"
  shows "seg \<noteq> Taxa_de_sucesso NaN \<and> (\<forall>u a b c. seg \<noteq> Usuario_row u a b c NaN)"
proof (cases "entries = []")
  case True
  with assms show ?thesis by (auto simp: formatAuditReport_Nil)
next
  case False
  then have len: "length entries \<noteq> 0" by simp
  have rows: "\<And>u st. (u, st) \<in> set (take 10 (sort_key (\<lambda>(usr, st). - int (total st))
                   (fold countUser entries []))) \<Longrightarrow> js_percent (success_s st) (total st) \<noteq> NaN"
  proof -
    fix u st
    assume "(u, st) \<in> set (take 10 (sort_key (\<lambda>(usr, st). - int (total st)) (fold countUser entries [])))"
    then have "(u, st) \<in> set (fold countUser entries [])"
      by (auto dest: in_set_takeD)
    then have "0 < total st" by (rule userStats_total)
    then show "js_percent (success_s st) (total st) \<noteq> NaN"
      by (simp add: js_percent_NaN)
  qed
  from assms len show ?thesis
    by (auto simp: formatAuditReport_def Let_def js_percent_NaN dest: rows)
qed


lemma generateAuditReport_readable:
  "readFileSync s auditLogPath = Inr logData \<Longrightarrow>
   generateAuditReport js now opts s =
     (Inr (formatAuditReport js
        (filter (matchesFilters
                   (case startDate opts of
                      None \<Rightarrow> toISOString js (now - 24 * 60 * 60 * 1000) | Some d \<Rightarrow> d)
                   (case endDate opts of None \<Rightarrow> toISOString js now | Some d \<Rightarrow> d) opts)
           (List.map_filter (JSON_parse js) (lines_of logData))) opts), s)"
  by (simp add: generateAuditReport_def filterEntries_eq)

lemma detectSuspiciousActivity_readable:
  "readFileSync s auditLogPath = Inr logData \<Longrightarrow>
   detectSuspiciousActivity js now s =
     scanEntries js now (List.map_filter (JSON_parse js) (lines_of logData)) s"
  by (simp add: detectSuspiciousActivity_def scanEntries_def collectRecent_eq Let_def)

lemma scanEntries_state:
  "\<exists>acts errs. \<forall>s. scanEntries js now es s = (acts, s\<lparr>logger := logger s @ errs\<rparr>)"
proof (cases "checkUsers (fold (groupBy (\<lambda>entry. show_str (user entry)))
                 (filter (\<lambda>e. js_gt (timestamp e) (toISOString js (now - 24 * 60 * 60 * 1000))) es) []) []")
  case (Inl e)
  then have "\<forall>s. scanEntries js now es s =
      ([], s\<lparr>logger := logger s @ [Err ''Erro ao detectar atividades suspeitas:'']\<rparr>)"
    by (simp add: scanEntries_def log_def)
  then show ?thesis by blast
next
  case (Inr acts)
  then have "\<forall>s. scanEntries js now es s =
      (checkIPs (fold (groupBy (\<lambda>entry. show_str (ip entry)))
         (filter (\<lambda>e. js_gt (timestamp e) (toISOString js (now - 24 * 60 * 60 * 1000))) es) []) acts,
       s\<lparr>logger := logger s @ []\<rparr>)"
    by (simp add: scanEntries_def)
  then show ?thesis by blast
qed

text \<open>
  Claim C9 (empty report). The report of no entries is the title, the period, a total of 0
  and the explicit line \<^verbatim>\<open>Nenhuma operacao encontrada no periodo especificado.\<close>, with no rate
  at all; \<^verbatim>\<open>generateAuditReport\<close> returns it, on a readable log, whenever no parsed line
  passes the filters; and in the report of any list of entries no rate, overall or of a
  user, is \<open>NaN\<close>.
\<close>

theorem zero_entries_report:
  "formatAuditReport js [] opts =
     [Relatorio_de_Auditoria, Periodo (startDate opts) (endDate opts), Total_de_operacoes 0,
      Nenhuma_operacao_encontrada] \<and>
   (readFileSync s auditLogPath = Inr logData \<longrightarrow>
    filter (matchesFilters
              (case startDate opts of
                 None \<Rightarrow> toISOString js (now - 24 * 60 * 60 * 1000) | Some d \<Rightarrow> d)
              (case endDate opts of None \<Rightarrow> toISOString js now | Some d \<Rightarrow> d) opts)
       (List.map_filter (JSON_parse js) (lines_of logData)) = [] \<longrightarrow>
    generateAuditReport js now opts s =
      (Inr [Relatorio_de_Auditoria, Periodo (startDate opts) (endDate opts),
            Total_de_operacoes 0, Nenhuma_operacao_encontrada], s)) \<and>
   (\<forall>seg \<in> set (formatAuditReport js entries opts).
      seg \<noteq> Taxa_de_sucesso NaN \<and> (\<forall>u a b c. seg \<noteq> Usuario_row u a b c NaN))"
proof (intro conjI impI ballI)
  show "formatAuditReport js [] opts =
     [Relatorio_de_Auditoria, Periodo (startDate opts) (endDate opts), Total_de_operacoes 0,
      Nenhuma_operacao_encontrada]"
    by (rule formatAuditReport_Nil)
next
  assume "readFileSync s auditLogPath = Inr logData"
    and "filter (matchesFilters
              (case startDate opts of
                 None \<Rightarrow> toISOString js (now - 24 * 60 * 60 * 1000) | Some d \<Rightarrow> d)
              (case endDate opts of None \<Rightarrow> toISOString js now | Some d \<Rightarrow> d) opts)
       (List.map_filter (JSON_parse js) (lines_of logData)) = []"
  then show "generateAuditReport js now opts s =
      (Inr [Relatorio_de_Auditoria, Periodo (startDate opts) (endDate opts),
            Total_de_operacoes 0, Nenhuma_operacao_encontrada], s)"
    by (simp only: generateAuditReport_readable formatAuditReport_Nil)
next
  fix seg assume "seg \<in> set (formatAuditReport js entries opts)"
  then show "seg \<noteq> Taxa_de_sucesso NaN" using report_no_NaN by blast
next
  fix seg assume "seg \<in> set (formatAuditReport js entries opts)"
  then show "\<forall>u a b c. seg \<noteq> Usuario_row u a b c NaN" using report_no_NaN by blast
qed

lemma log_old_lines:
  "filter (matchesFilters (toISOString demo_js (demo_now - 24 * 60 * 60 * 1000))
            (toISOString demo_js demo_now) opts0)
     (List.map_filter (JSON_parse demo_js) (lines_of log_old)) = []"
  by code_simp

theorem zero_entries_report_witness:
  "readFileSync (log_state log_old) auditLogPath = Inr log_old \<and>
   generateAuditReport demo_js demo_now opts0 (log_state log_old) =
     (Inr [Relatorio_de_Auditoria, Periodo None None, Total_de_operacoes 0,
           Nenhuma_operacao_encontrada], log_state log_old)"
proof -
  have r: "readFileSync (log_state log_old) auditLogPath = Inr log_old"
    by (simp add: readFileSync_def log_state_def)
  have o: "startDate opts0 = None" "endDate opts0 = None"
    by (simp_all add: opts0_def)
  show ?thesis
    using zero_entries_report [of demo_js opts0 "log_state log_old" log_old demo_now "[]"]
      r log_old_lines
    by (simp add: o)
qed

text \<open>
  Claim C7 (malformed lines), as the code has it. When a line of a readable log does not
  parse, \<^verbatim>\<open>generateAuditReport\<close> and \<^verbatim>\<open>detectSuspiciousActivity\<close> return what they return on
  the log with that line removed; the report is a result, not an error, and the state is
  left as it was: the line is passed over silently, nothing about it is counted or logged.
\<close>

theorem malformed_line_skipped:
  assumes "JSON_parse js l = None"
    and "files s auditLogPath = Some logData"
    and "lines_of logData = xs @ l # ys"
    and "lines_of logData' = xs @ ys"
    and "s' = s\<lparr>files := (files s)(auditLogPath \<mapsto> logData')\<rparr>"
  shows "(\<exists>report. generateAuditReport js now opts s = (Inr report, s) \<and>
                   generateAuditReport js now opts s' = (Inr report, s')) \<and>
         (\<exists>acts errs. detectSuspiciousActivity js now s = (acts, s\<lparr>logger := logger s @ errs\<rparr>) \<and>
                      detectSuspiciousActivity js now s' = (acts, s'\<lparr>logger := logger s' @ errs\<rparr>))"
proof -
  have r: "readFileSync s auditLogPath = Inr logData"
    using assms(2) by (simp add: readFileSync_def)
  have r': "readFileSync s' auditLogPath = Inr logData'"
    using assms(5) by (simp add: readFileSync_def)
  have eq: "List.map_filter (JSON_parse js) (lines_of logData) =
            List.map_filter (JSON_parse js) (lines_of logData')"
    using assms(1,3,4) by (simp add: map_filter_skip)
  have g: "\<exists>report. generateAuditReport js now opts s = (Inr report, s) \<and>
                    generateAuditReport js now opts s' = (Inr report, s')"
    by (simp add: generateAuditReport_readable [OF r] generateAuditReport_readable [OF r'] eq)
  obtain acts errs where
    sc: "\<forall>t. scanEntries js now (List.map_filter (JSON_parse js) (lines_of logData')) t =
              (acts, t\<lparr>logger := logger t @ errs\<rparr>)"
    using scanEntries_state by blast
  have "detectSuspiciousActivity js now s = (acts, s\<lparr>logger := logger s @ errs\<rparr>)"
    using sc by (simp add: detectSuspiciousActivity_readable [OF r] eq)
  moreover have "detectSuspiciousActivity js now s' = (acts, s'\<lparr>logger := logger s' @ errs\<rparr>)"
    using sc by (simp add: detectSuspiciousActivity_readable [OF r'])
  ultimately show ?thesis using g by blast
qed

lemma log_bad_alice_lines: "lines_of log_bad_alice = [] @ line_bad # [line_alice]"
  by code_simp

lemma log_alice_lines: "lines_of log_alice = [] @ [line_alice]"
  by code_simp

lemma line_bad_parse: "JSON_parse demo_js line_bad = None"
  by code_simp

theorem malformed_line_skipped_witness:
  "JSON_parse demo_js line_bad = None \<and>
   lines_of log_bad_alice = [] @ line_bad # [line_alice] \<and>
   lines_of log_alice = [] @ [line_alice] \<and>
   (\<exists>report.
      generateAuditReport demo_js demo_now opts0 (log_state log_bad_alice)
        = (Inr report, log_state log_bad_alice) \<and>
      generateAuditReport demo_js demo_now opts0 (log_state log_alice)
        = (Inr report, log_state log_alice))"
proof -
  have f: "files (log_state log_bad_alice) auditLogPath = Some log_bad_alice"
    by (simp add: log_state_def)
  have s': "log_state log_alice =
      (log_state log_bad_alice)\<lparr>files := (files (log_state log_bad_alice))(auditLogPath \<mapsto> log_alice)\<rparr>"
    by (simp add: log_state_def)
  show ?thesis
    using malformed_line_skipped [OF line_bad_parse f log_bad_alice_lines log_alice_lines s',
        of demo_now opts0]
      line_bad_parse log_bad_alice_lines log_alice_lines
    by blast
qed

text \<open>
  The count of the claim C7 does not exist: the report returned and the logger calls are the
  same for a log with one malformed line and for a log with none, so no function of them is
  the number of malformed lines.
\<close>

theorem malformed_lines_not_counted_counterexample:
  "\<not> (\<exists>count. \<forall>logData.
        count (fst (generateAuditReport demo_js demo_now opts0 (log_state logData)),
               logger (snd (generateAuditReport demo_js demo_now opts0 (log_state logData))))
        = length (filter (\<lambda>line. JSON_parse demo_js line = None) (lines_of logData)))"
proof
  assume "\<exists>count. \<forall>logData.
        count (fst (generateAuditReport demo_js demo_now opts0 (log_state logData)),
               logger (snd (generateAuditReport demo_js demo_now opts0 (log_state logData))))
        = length (filter (\<lambda>line. JSON_parse demo_js line = None) (lines_of logData))"
  then obtain count where c: "\<And>logData.
        count (fst (generateAuditReport demo_js demo_now opts0 (log_state logData)),
               logger (snd (generateAuditReport demo_js demo_now opts0 (log_state logData))))
        = length (filter (\<lambda>line. JSON_parse demo_js line = None) (lines_of logData))"
    by blast
  have r: "\<And>d. readFileSync (log_state d) auditLogPath = Inr d"
    by (simp add: readFileSync_def log_state_def)
  have e: "List.map_filter (JSON_parse demo_js) (lines_of log_bad_alice) =
           List.map_filter (JSON_parse demo_js) (lines_of log_alice)"
    by code_simp
  have same: "(fst (generateAuditReport demo_js demo_now opts0 (log_state log_bad_alice)),
               logger (snd (generateAuditReport demo_js demo_now opts0 (log_state log_bad_alice))))
            = (fst (generateAuditReport demo_js demo_now opts0 (log_state log_alice)),
               logger (snd (generateAuditReport demo_js demo_now opts0 (log_state log_alice))))"
    by (simp add: generateAuditReport_readable [OF r] e) (simp add: log_state_def)
  have n1: "length (filter (\<lambda>line. JSON_parse demo_js line = None) (lines_of log_bad_alice)) = 1"
    by code_simp
  have n0: "length (filter (\<lambda>line. JSON_parse demo_js line = None) (lines_of log_alice)) = 0"
    by code_simp
  from c [of log_bad_alice] c [of log_alice] same n1 n0 show False
    by simp
qed

section \<open>Properties of the retention clean-up and of the recording\<close>

lemma split_nl_nonempty: "split_nl s \<noteq> []"
  by (induction s) (simp_all add: Let_def)

lemma split_nl_no_newline: "l \<in> set (split_nl s) \<Longrightarrow> CHR ''\<newline>'' \<notin> set l"
proof (induction s arbitrary: l)
  case Nil
  then show ?case by simp
next
  case (Cons c cs)
  obtain h t where ht: "split_nl cs = h # t"
    using split_nl_nonempty [of cs] by (cases "split_nl cs") auto
  show ?case
  proof (cases "c = CHR ''\<newline>''")
    case True
    with Cons ht show ?thesis by (auto simp: Let_def)
  next
    case False
    with Cons.prems ht have "l = c # h \<or> l \<in> set t" by (auto simp: Let_def)
    then show ?thesis
    proof
      assume "l = c # h"
      moreover have "CHR ''\<newline>'' \<notin> set h" using Cons.IH [of h] ht by simp
      ultimately show ?thesis using False by auto
    next
      assume "l \<in> set t"
      then show ?thesis using Cons.IH [of l] ht by simp
    qed
  qed
qed

lemma split_nl_line:
  "CHR ''\<newline>'' \<notin> set l \<Longrightarrow> split_nl (l @ CHR ''\<newline>'' # rest) = l # split_nl rest"
  by (induction l) (auto simp: Let_def)

lemma split_nl_join:
  "ks \<noteq> [] \<Longrightarrow> \<forall>k \<in> set ks. CHR ''\<newline>'' \<notin> set k \<Longrightarrow>
   split_nl (join_nl ks @ [CHR ''\<newline>'']) = ks @ [[]]"
proof (induction ks rule: join_nl.induct)
  case 1
  then show ?case by simp
next
  case (2 l)
  then show ?case using split_nl_line [of l "[]"] by simp
next
  case (3 l m ls)
  then show ?case using split_nl_line [of l "join_nl (m # ls) @ [CHR ''\<newline>'']"] by simp
qed

lemma keepLine_iff:
  "keepLine js c line \<longleftrightarrow>
     (case JSON_parse js line of
        None \<Rightarrow> True
      | Some entry \<Rightarrow> (\<exists>x t. timestamp entry = Some x \<and> getTime js x = Some t \<and> c < t))"
  by (auto simp: keepLine_def num_gt_def dateOf_def split: option.splits)

lemma cleanOldAuditLogs_writable:
  "files s auditLogPath = Some logData \<Longrightarrow> faults s auditLogPath = None \<Longrightarrow>
   cleanOldAuditLogs js cfg now s =
     log (Info (''Logs de auditoria antigos removidos. Mantidos ''
                @ show_nat (length (filter (keepLine js (daysBefore js now (auditRetentionDays cfg)))
                                      (lines_of logData)))
                @ '' de '' @ show_nat (length (lines_of logData)) @ '' entradas.''))
       (s\<lparr>files := (files s)(auditLogPath \<mapsto>
            join_nl (filter (keepLine js (daysBefore js now (auditRetentionDays cfg)))
                       (lines_of logData))
            @ [CHR ''\<newline>''])\<rparr>)"
  by (simp add: cleanOldAuditLogs_def readFileSync_def writeFileSync_def write_at_def Let_def)

lemma cleanOldAuditLogs_unreadable:
  "files s auditLogPath = None \<Longrightarrow>
   cleanOldAuditLogs js cfg now s = log (Err ''Erro ao limpar logs de auditoria antigos:'') s"
  by (simp add: cleanOldAuditLogs_def readFileSync_def)

lemma cleanOldAuditLogs_denied:
  "faults s auditLogPath = Some Denied \<Longrightarrow>
   cleanOldAuditLogs js cfg now s = log (Err ''Erro ao limpar logs de auditoria antigos:'') s"
  by (simp add: cleanOldAuditLogs_def readFileSync_def writeFileSync_def write_at_def Let_def
      split: option.splits)

lemma cleanOldAuditLogs_other:
  "p \<noteq> auditLogPath \<Longrightarrow> files (cleanOldAuditLogs js cfg now s) p = files s p"
  by (simp add: cleanOldAuditLogs_def writeFileSync_def write_at_def log_def Let_def
      split: sum.splits option.splits fault.splits)

lemma demo_kept_filter:
  "filter (\<lambda>line. case JSON_parse demo_js line of
                     None \<Rightarrow> True
                   | Some entry \<Rightarrow>
                       (\<exists>x t. timestamp entry = Some x \<and> getTime demo_js x = Some t \<and>
                              daysBefore demo_js demo_now (auditRetentionDays demo_cfg) < t))
     (lines_of logData)
   = filter (keepLine demo_js (daysBefore demo_js demo_now (auditRetentionDays demo_cfg)))
       (lines_of logData)"
  by (rule filter_cong) (simp_all only: keepLine_iff)

lemma kept_bad_null_old_bob:
  "filter (keepLine demo_js (daysBefore demo_js demo_now (auditRetentionDays demo_cfg)))
     (lines_of log_bad_null_old_bob) = [line_bad, ''null'', line_bob]"
  by code_simp

lemma kept_old_bob:
  "filter (keepLine demo_js (daysBefore demo_js demo_now (auditRetentionDays demo_cfg)))
     (lines_of log_old_bob) = [line_bob]"
  by code_simp

lemma join_bad_null_bob:
  "join_nl [line_bad, ''null'', line_bob] @ [CHR ''\<newline>''] = log_bad_null_bob"
  by (simp add: log_bad_null_bob_def)

lemma join_bob: "join_nl [line_bob] @ [CHR ''\<newline>''] = log_bob"
  by (simp add: log_bob_def)

text \<open>
  Claim C10 (retention), as the code has it. The lines of the prune are those of the log
  text with the white space at both ends removed, split at the newlines. On a log that can
  be read and written, the file after \<^verbatim>\<open>cleanOldAuditLogs\<close> holds the lines kept, each followed
  by a newline. A line is kept when the body of the \<^verbatim>\<open>try\<close> raises on it, that is when
  \<^verbatim>\<open>JSON.parse\<close> throws or yields \<^verbatim>\<open>null\<close>, whatever its age; a line that parses to any other
  value is kept exactly when its time stamp is the text of a valid date strictly later than
  the cut-off. Every line of the first kind is among the lines kept, and is a line of the
  file written.
\<close>

theorem retention_keeps_unparsed_lines:
  assumes "files s auditLogPath = Some logData" and "faults s auditLogPath = None"
  shows "\<exists>kept.
     files (cleanOldAuditLogs js cfg now s) auditLogPath = Some (join_nl kept @ [CHR ''\<newline>'']) \<and>
     kept = filter (\<lambda>line. case JSON_parse js line of
                              None \<Rightarrow> True
                            | Some entry \<Rightarrow>
                                (\<exists>x t. timestamp entry = Some x \<and> getTime js x = Some t \<and>
                                       daysBefore js now (auditRetentionDays cfg) < t))
              (lines_of logData) \<and>
     (\<forall>line \<in> set (lines_of logData).
        JSON_parse js line = None \<longrightarrow>
        line \<in> set kept \<and> line \<in> set (split_nl (join_nl kept @ [CHR ''\<newline>''])))"
proof -
  let ?c = "daysBefore js now (auditRetentionDays cfg)"
  let ?kept = "filter (keepLine js ?c) (lines_of logData)"
  have f: "files (cleanOldAuditLogs js cfg now s) auditLogPath
             = Some (join_nl ?kept @ [CHR ''\<newline>''])"
    by (simp add: cleanOldAuditLogs_writable [OF assms] log_def)
  have k: "?kept = filter (\<lambda>line. case JSON_parse js line of
                              None \<Rightarrow> True
                            | Some entry \<Rightarrow>
                                (\<exists>x t. timestamp entry = Some x \<and> getTime js x = Some t \<and>
                                       ?c < t))
              (lines_of logData)"
    by (rule filter_cong) (simp_all only: keepLine_iff)
  have m: "line \<in> set ?kept \<and> line \<in> set (split_nl (join_nl ?kept @ [CHR ''\<newline>'']))"
    if "line \<in> set (lines_of logData)" and "JSON_parse js line = None" for line
  proof -
    from that have in_kept: "line \<in> set ?kept" by (simp add: keepLine_def)
    then have ne: "?kept \<noteq> []" by (metis empty_iff list.set(1))
    have "\<forall>k \<in> set ?kept. CHR ''\<newline>'' \<notin> set k"
      by (auto simp: lines_of_def dest: split_nl_no_newline)
    with ne have "split_nl (join_nl ?kept @ [CHR ''\<newline>'']) = ?kept @ [[]]"
      by (rule split_nl_join)
    with in_kept show ?thesis by simp
  qed
  from f k m show ?thesis by blast
qed

theorem retention_keeps_unparsed_lines_witness:
  "files (log_state log_bad_null_old_bob) auditLogPath = Some log_bad_null_old_bob \<and>
   faults (log_state log_bad_null_old_bob) auditLogPath = None \<and>
   JSON_parse demo_js line_bad = None \<and>
   JSON_parse demo_js ''null'' = None \<and>
   JSON_parse demo_js line_old = Some entry_old \<and>
   files (cleanOldAuditLogs demo_js demo_cfg demo_now (log_state log_bad_null_old_bob)) auditLogPath
     = Some log_bad_null_bob"
proof -
  have r: "files (log_state log_bad_null_old_bob) auditLogPath = Some log_bad_null_old_bob"
    by (simp add: log_state_def)
  have f: "faults (log_state log_bad_null_old_bob) auditLogPath = None"
    by (simp add: log_state_def)
  have p: "JSON_parse demo_js line_bad = None" "JSON_parse demo_js ''null'' = None"
    "JSON_parse demo_js line_old = Some entry_old"
    by code_simp+
  obtain kept where
    a: "files (cleanOldAuditLogs demo_js demo_cfg demo_now (log_state log_bad_null_old_bob))
          auditLogPath = Some (join_nl kept @ [CHR ''\<newline>''])"
    and b: "kept = [line_bad, ''null'', line_bob]"
    using retention_keeps_unparsed_lines [OF r f, where js = demo_js and cfg = demo_cfg
        and now = demo_now]
    unfolding demo_kept_filter kept_bad_null_old_bob by (elim exE conjE) (rule that)
  have w: "files (cleanOldAuditLogs demo_js demo_cfg demo_now (log_state log_bad_null_old_bob))
             auditLogPath = Some log_bad_null_bob"
    using a unfolding b join_bad_null_bob .
  from r f p w show ?thesis by (intro conjI)
qed

text \<open>
  The claim C10 says that only entries older than the cut-off are removed. A line that
  parses to an object without time stamp is removed as well, next to a recent entry that
  is kept.
\<close>

theorem retention_removes_undated_counterexample:
  "line_note \<in> set (lines_of log_note_bob) \<and>
   JSON_parse demo_js line_note = Some no_entry \<and>
   timestamp no_entry = None \<and>
   files (cleanOldAuditLogs demo_js demo_cfg demo_now (log_state log_note_bob)) auditLogPath
     = Some log_bob \<and>
   logger (cleanOldAuditLogs demo_js demo_cfg demo_now (log_state log_note_bob))
     = [Info ''Logs de auditoria antigos removidos. Mantidos 1 de 2 entradas.'']"
  by code_simp

text \<open>
  Claim C6 (prune), as the code has it. \<^verbatim>\<open>cleanOldAuditLogs\<close> touches no file but the audit
  log: there is no new file and no replacement, the lines kept are written over the log
  itself by one \<^verbatim>\<open>writeFileSync\<close>. When the log cannot be read, or the write is refused
  before it starts, the \<^verbatim>\<open>catch\<close> logs the error through \<^verbatim>\<open>logger.error\<close> and nothing else
  changes: the files are as they were. When the log is read and the write succeeds, the log
  holds the lines kept, each followed by a newline, and \<^verbatim>\<open>logger.info\<close> reports how many of
  the lines are kept; the lines kept are those on which the body of the \<^verbatim>\<open>try\<close> raises
  (\<^verbatim>\<open>JSON.parse\<close> throws or yields \<^verbatim>\<open>null\<close>) and those whose time stamp is a valid date
  strictly later than the cut-off. Nothing is promised for a write that fails midway.
\<close>

theorem prune_overwrites_in_place:
  "(\<forall>p. p \<noteq> auditLogPath \<longrightarrow> files (cleanOldAuditLogs js cfg now s) p = files s p) \<and>
   (files s auditLogPath = None \<longrightarrow>
      cleanOldAuditLogs js cfg now s = log (Err ''Erro ao limpar logs de auditoria antigos:'') s) \<and>
   (faults s auditLogPath = Some Denied \<longrightarrow>
      cleanOldAuditLogs js cfg now s = log (Err ''Erro ao limpar logs de auditoria antigos:'') s) \<and>
   (files s auditLogPath = Some logData \<longrightarrow> faults s auditLogPath = None \<longrightarrow>
      (\<exists>kept.
         kept = filter (\<lambda>line. case JSON_parse js line of
                                  None \<Rightarrow> True
                                | Some entry \<Rightarrow>
                                    (\<exists>x t. timestamp entry = Some x \<and> getTime js x = Some t \<and>
                                           daysBefore js now (auditRetentionDays cfg) < t))
                  (lines_of logData) \<and>
         cleanOldAuditLogs js cfg now s =
           log (Info (''Logs de auditoria antigos removidos. Mantidos ''
                      @ show_nat (length kept) @ '' de ''
                      @ show_nat (length (lines_of logData)) @ '' entradas.''))
             (s\<lparr>files := (files s)(auditLogPath \<mapsto> join_nl kept @ [CHR ''\<newline>''])\<rparr>)))"
proof (intro conjI allI impI)
  fix p assume "p \<noteq> auditLogPath"
  then show "files (cleanOldAuditLogs js cfg now s) p = files s p"
    by (rule cleanOldAuditLogs_other)
next
  assume "files s auditLogPath = None"
  then show "cleanOldAuditLogs js cfg now s
               = log (Err ''Erro ao limpar logs de auditoria antigos:'') s"
    by (rule cleanOldAuditLogs_unreadable)
next
  assume "faults s auditLogPath = Some Denied"
  then show "cleanOldAuditLogs js cfg now s
               = log (Err ''Erro ao limpar logs de auditoria antigos:'') s"
    by (rule cleanOldAuditLogs_denied)
next
  assume a: "files s auditLogPath = Some logData" "faults s auditLogPath = None"
  let ?c = "daysBefore js now (auditRetentionDays cfg)"
  have k: "filter (keepLine js ?c) (lines_of logData)
         = filter (\<lambda>line. case JSON_parse js line of
                              None \<Rightarrow> True
                            | Some entry \<Rightarrow>
                                (\<exists>x t. timestamp entry = Some x \<and> getTime js x = Some t \<and>
                                       ?c < t))
              (lines_of logData)"
    by (rule filter_cong) (simp_all only: keepLine_iff)
  show "\<exists>kept.
         kept = filter (\<lambda>line. case JSON_parse js line of
                                  None \<Rightarrow> True
                                | Some entry \<Rightarrow>
                                    (\<exists>x t. timestamp entry = Some x \<and> getTime js x = Some t \<and>
                                           ?c < t))
                  (lines_of logData) \<and>
         cleanOldAuditLogs js cfg now s =
           log (Info (''Logs de auditoria antigos removidos. Mantidos ''
                      @ show_nat (length kept) @ '' de ''
                      @ show_nat (length (lines_of logData)) @ '' entradas.''))
             (s\<lparr>files := (files s)(auditLogPath \<mapsto> join_nl kept @ [CHR ''\<newline>''])\<rparr>)"
    unfolding k [symmetric] by (simp only: cleanOldAuditLogs_writable [OF a] simp_thms)
qed

theorem prune_overwrites_in_place_witness:
  "files (log_state log_old_bob) auditLogPath = Some log_old_bob \<and>
   faults (log_state log_old_bob) auditLogPath = None \<and>
   cleanOldAuditLogs demo_js demo_cfg demo_now (log_state log_old_bob) =
     log (Info ''Logs de auditoria antigos removidos. Mantidos 1 de 2 entradas.'')
       ((log_state log_old_bob)\<lparr>files := (files (log_state log_old_bob))(auditLogPath \<mapsto> log_bob)\<rparr>) \<and>
   faults (faulty_state Denied log_old_bob) auditLogPath = Some Denied \<and>
   cleanOldAuditLogs demo_js demo_cfg demo_now (faulty_state Denied log_old_bob) =
     log (Err ''Erro ao limpar logs de auditoria antigos:'') (faulty_state Denied log_old_bob)"
proof -
  have r: "files (log_state log_old_bob) auditLogPath = Some log_old_bob"
    by (simp add: log_state_def)
  have f: "faults (log_state log_old_bob) auditLogPath = None"
    by (simp add: log_state_def)
  have d: "faults (faulty_state Denied log_old_bob) auditLogPath = Some Denied"
    by (simp add: faulty_state_def)
  have n: "show_nat (length [line_bob]) = ''1''" "show_nat (length (lines_of log_old_bob)) = ''2''"
    by code_simp+
  have w: "cleanOldAuditLogs demo_js demo_cfg demo_now (log_state log_old_bob) =
     log (Info ''Logs de auditoria antigos removidos. Mantidos 1 de 2 entradas.'')
       ((log_state log_old_bob)\<lparr>files := (files (log_state log_old_bob))(auditLogPath \<mapsto> log_bob)\<rparr>)"
    using prune_overwrites_in_place [where js = demo_js and cfg = demo_cfg and now = demo_now
        and s = "log_state log_old_bob" and logData = log_old_bob,
        THEN conjunct2, THEN conjunct2, THEN conjunct2, rule_format, OF r f]
    unfolding demo_kept_filter kept_old_bob join_bob n
    by (elim exE conjE) (simp only: n join_bob append.simps)
  have e: "cleanOldAuditLogs demo_js demo_cfg demo_now (faulty_state Denied log_old_bob) =
     log (Err ''Erro ao limpar logs de auditoria antigos:'') (faulty_state Denied log_old_bob)"
    by (rule prune_overwrites_in_place [where js = demo_js and cfg = demo_cfg and now = demo_now
          and s = "faulty_state Denied log_old_bob" and logData = log_old_bob,
          THEN conjunct2, THEN conjunct2, THEN conjunct1, rule_format, OF d])
  from r f w d e show ?thesis by (intro conjI)
qed

text \<open>
  The claim C6 says that a failing prune leaves the log in its state before the prune. A
  write that fails after ten characters leaves those ten characters as the log, where the
  log before the prune, and the pruned log, hold the whole entry.
\<close>

theorem prune_failure_truncates_counterexample:
  \<open>files (faulty_state (FailsAfter 10) log_bob) auditLogPath = Some log_bob \<and>
   filter (keepLine demo_js (daysBefore demo_js demo_now (auditRetentionDays demo_cfg)))
     (lines_of log_bob) = [line_bob] \<and>
   files (cleanOldAuditLogs demo_js demo_cfg demo_now (faulty_state (FailsAfter 10) log_bob))
     auditLogPath = Some ''{"timestam'' \<and>
   logger (cleanOldAuditLogs demo_js demo_cfg demo_now (faulty_state (FailsAfter 10) log_bob))
     = [Err ''Erro ao limpar logs de auditoria antigos:'']\<close>
  by code_simp






section \<open>Properties of the notification service\<close>

lemma logger_log: "logger (log c s) = logger s @ [c]"
  by (simp add: log_def)





















lemma quoteJSONString_nonempty: "quoteJSONString k @ x \<noteq> []"
  by (simp add: quoteJSONString_def)






















lemma map_message_relabel:
  "length ks = length ns \<Longrightarrow>
   map message_n (map (\<lambda>(n, k). n\<lparr>id_n := Some (idgen k)\<rparr>) (zip ns ks)) = map message_n ns"
  by (induction ns ks rule: list_induct2') simp_all








end
